theory Spec2Isabelle
  imports Main
begin

section \<open>Authentication core of go-apiTemplate (internal/auth/auth.go)\<close>

text \<open>
  The theory embeds the package \<open>auth\<close>: the authenticator with its JWT issuing and
  verification, the extraction of a bearer credential from the \<open>Authorization\<close> header,
  the two middlewares and the context accessors. Go strings are byte lists
  (\<^typ>\<open>string\<close>), slices are lists (a nil slice and an empty slice are both \<open>[]\<close>),
  \<open>(value, error)\<close> results are sums with the error on the left.
\<close>

subsection \<open>Errors\<close>

text \<open>
  The error values of the token library that the package or the model tells apart, and
  the error values of the package: its five \<open>Err...\<close> variables and the two errors
  \<open>GenerateJWTToken\<close> formats (\<open>unsupported signing method\<close>, and \<open>failed to sign token\<close>
  wrapping the error of the library).
\<close>

datatype jwt_error =
    ErrTokenMalformed
  | ErrTokenUnverifiable
  | ErrTokenSignatureInvalid
  | ErrTokenInvalidClaims
  | ErrTokenExpired
  | ErrTokenNotValidYet
  | ErrInvalidKey
  | ErrInvalidKeyType

datatype auth_error =
    ErrInvalidToken
  | ErrExpiredToken
  | ErrInsufficientScope
  | ErrMissingToken
  | ErrAuthorizationPending
  | UnsupportedSigningMethod
  | FailedToSign "jwt_error list"

subsection \<open>Panics\<close>

text \<open>
  A Go call returns or panics. The package has no \<open>recover\<close>: a panic inside a call of
  the package ends that call and every caller up to the handler.
\<close>

datatype 'a go = Panic | Return 'a

subsection \<open>The standard-library calls of the header parsing\<close>

text \<open>
  \<open>strings.Split(s, sep)\<close> for a separator of one byte, which is how the package calls it
  (\<open>" "\<close>): the pieces between the occurrences of the separator, one more than there are
  occurrences, so never an empty slice.
\<close>

fun strings_Split :: "string \<Rightarrow> char \<Rightarrow> string list" where
  "strings_Split [] sep = [[]]"
| "strings_Split (c # cs) sep =
     (if c = sep then [] # strings_Split cs sep
      else (case strings_Split cs sep of
              [] \<Rightarrow> [[c]]
            | p # ps \<Rightarrow> (c # p) # ps))"

text \<open>\<open>strings.Join(elems, sep)\<close>.\<close>

fun strings_Join :: "string list \<Rightarrow> string \<Rightarrow> string" where
  "strings_Join [] sep = []"
| "strings_Join [x] sep = x"
| "strings_Join (x # y # ys) sep = x @ sep @ strings_Join (y # ys) sep"

text \<open>
  \<open>http.Header\<close> is a map from header names to value lists, an absent name giving the
  nil list; \<open>Header.Get\<close> returns the first value of the name, or the empty string.
\<close>

type_synonym Header = "string \<Rightarrow> string list"

definition Header_Get :: "Header \<Rightarrow> string \<Rightarrow> string" where
  "Header_Get h key = (case h key of [] \<Rightarrow> [] | v # _ \<Rightarrow> v)"

subsection \<open>Time\<close>

text \<open>
  A \<open>time.Time\<close> is the number of nanoseconds since the Unix epoch, a \<open>time.Duration\<close> a
  number of nanoseconds. \<open>jwt.NewNumericDate(t)\<close> keeps \<open>t.Truncate(time.Second)\<close>: the
  registered claims carry whole seconds.
\<close>

type_synonym Time = int
type_synonym Duration = int

definition Second :: Duration where
  "Second = 1000000000"

definition NewNumericDate :: "Time \<Rightarrow> Time" where
  "NewNumericDate t = (t div Second) * Second"

subsection \<open>Claims, signing methods and keys\<close>

text \<open>
  \<open>jwt.RegisteredClaims\<close>; the three dates are pointers in Go and may be nil in a parsed
  token. \<open>Claims\<close> embeds it and adds the user, the roles and the scopes.
\<close>

record RegisteredClaims =
  Issuer :: string
  Subject :: string
  Audience :: "string list"
  ExpiresAt :: "Time option"
  NotBefore :: "Time option"
  IssuedAt :: "Time option"
  ID :: string

record Claims = RegisteredClaims +
  UserID :: string
  Roles :: "string list"
  Scopes :: "string list"

text \<open>
  The claims travel as JSON. \<open>encoding/json\<close> writes a Go string rune by rune: an
  ASCII byte and a well-formed UTF-8 sequence are kept, every byte that starts no
  well-formed sequence (\<open>utf8.DecodeRuneInString\<close> gives \<open>RuneError\<close> with size 1) is
  written as the escape of U+FFFD, which reads back as the three bytes EF BF BD.
  \<open>utf8_following\<close> is the number of continuation bytes of the well-formed sequence at
  the head of a string, 0 when there is none; \<open>json_string\<close> is a string after
  marshalling and unmarshalling, \<open>utf8_ValidString\<close> is \<open>utf8.ValidString\<close>.
\<close>

definition byte_in :: "char \<Rightarrow> nat \<Rightarrow> nat \<Rightarrow> bool" where
  "byte_in b lo hi = (lo \<le> of_char b \<and> of_char b \<le> (hi::nat))"

definition continuation :: "nat \<Rightarrow> nat \<Rightarrow> nat \<Rightarrow> string \<Rightarrow> nat" where
  "continuation n lo hi rest =
     (case rest of
        [] \<Rightarrow> 0
      | b1 # others \<Rightarrow>
          if byte_in b1 lo hi \<and> n - 1 \<le> length others \<and>
             list_all (\<lambda>b. byte_in b 128 191) (take (n - 1) others)
          then n else 0)"

definition utf8_following :: "string \<Rightarrow> nat" where
  "utf8_following s =
     (case s of
        [] \<Rightarrow> 0
      | b # rest \<Rightarrow>
          if byte_in b 194 223 then continuation 1 128 191 rest
          else if byte_in b 224 224 then continuation 2 160 191 rest
          else if byte_in b 225 236 then continuation 2 128 191 rest
          else if byte_in b 237 237 then continuation 2 128 159 rest
          else if byte_in b 238 239 then continuation 2 128 191 rest
          else if byte_in b 240 240 then continuation 3 144 191 rest
          else if byte_in b 241 243 then continuation 3 128 191 rest
          else if byte_in b 244 244 then continuation 3 128 143 rest
          else 0)"

definition RuneError :: string where
  "RuneError = [CHR 0xEF, CHR 0xBF, CHR 0xBD]"

text \<open>The first argument counts the continuation bytes still to copy.\<close>

fun json_bytes :: "nat \<Rightarrow> string \<Rightarrow> string" where
  "json_bytes k [] = []"
| "json_bytes (Suc k) (b # rest) = b # json_bytes k rest"
| "json_bytes 0 (b # rest) =
     (if byte_in b 0 127 then b # json_bytes 0 rest
      else (case utf8_following (b # rest) of
              0 \<Rightarrow> RuneError @ json_bytes 0 rest
            | Suc n \<Rightarrow> b # json_bytes (Suc n) rest))"

definition json_string :: "string \<Rightarrow> string" where
  "json_string s = json_bytes 0 s"

fun valid_bytes :: "nat \<Rightarrow> string \<Rightarrow> bool" where
  "valid_bytes k [] = True"
| "valid_bytes (Suc k) (b # rest) = valid_bytes k rest"
| "valid_bytes 0 (b # rest) =
     (if byte_in b 0 127 then valid_bytes 0 rest
      else (case utf8_following (b # rest) of
              0 \<Rightarrow> False
            | Suc n \<Rightarrow> valid_bytes (Suc n) rest))"

definition utf8_ValidString :: "string \<Rightarrow> bool" where
  "utf8_ValidString s = valid_bytes 0 s"

text \<open>
  The claims after marshalling and unmarshalling: every string as JSON carries it, every
  date in whole seconds (\<open>NumericDate.MarshalJSON\<close> truncates).
\<close>

definition wire_claims :: "Claims \<Rightarrow> Claims" where
  "wire_claims c =
     c\<lparr>Issuer := json_string (Issuer c),
       Subject := json_string (Subject c),
       Audience := map json_string (Audience c),
       ExpiresAt := map_option NewNumericDate (ExpiresAt c),
       NotBefore := map_option NewNumericDate (NotBefore c),
       IssuedAt := map_option NewNumericDate (IssuedAt c),
       ID := json_string (ID c),
       UserID := json_string (UserID c),
       Roles := map json_string (Roles c),
       Scopes := map json_string (Scopes c)\<rparr>"

text \<open>
  The signing methods of the library by their Go type: \<open>*jwt.SigningMethodHMAC\<close> and
  \<open>*jwt.SigningMethodRSA\<close>, each with its three registered instances, and the methods of
  any other type (ECDSA, RSA-PSS, EdDSA, none) by their \<open>alg\<close> name.
\<close>

datatype hash_alg = SHA256 | SHA384 | SHA512

datatype SigningMethod =
    SigningMethodHMAC hash_alg
  | SigningMethodRSA hash_alg
  | SigningMethodOther string

abbreviation SigningMethodHS256 :: SigningMethod where
  "SigningMethodHS256 \<equiv> SigningMethodHMAC SHA256"
abbreviation SigningMethodHS384 :: SigningMethod where
  "SigningMethodHS384 \<equiv> SigningMethodHMAC SHA384"
abbreviation SigningMethodHS512 :: SigningMethod where
  "SigningMethodHS512 \<equiv> SigningMethodHMAC SHA512"
abbreviation SigningMethodRS256 :: SigningMethod where
  "SigningMethodRS256 \<equiv> SigningMethodRSA SHA256"
abbreviation SigningMethodRS384 :: SigningMethod where
  "SigningMethodRS384 \<equiv> SigningMethodRSA SHA384"
abbreviation SigningMethodRS512 :: SigningMethod where
  "SigningMethodRS512 \<equiv> SigningMethodRSA SHA512"

text \<open>
  RSA keys by their numbers (modulus and exponents), and the \<open>interface{}\<close> key handed to
  the library: the secret bytes, or a possibly nil pointer to an RSA key.
\<close>

datatype rsa_PublicKey = PublicKey nat nat
datatype rsa_PrivateKey = PrivateKey rsa_PublicKey nat

datatype Key =
    KeyBytes string
  | KeyPrivate "rsa_PrivateKey option"
  | KeyPublic "rsa_PublicKey option"

subsection \<open>The token library (github.com/golang-jwt/jwt/v5)\<close>

text \<open>
  \<open>jwt.Token\<close> as the parser fills it: the method named by the header, the decoded claims,
  the text that was signed (the first two segments), the decoded signature and the
  \<open>Valid\<close> flag.
\<close>

record Token =
  Method :: SigningMethod
  Token_Claims :: Claims
  SigningInput :: string
  Signature :: string
  Valid :: bool

text \<open>
  The package imports the library; the library's cryptography and its wire encoding
  (base64url of JSON) are not part of the repository. They are parameters of the model:
  \<^item> \<open>SigningString\<close>: the encoded header and claims of a token, joined by a dot;
  \<^item> \<open>Sign\<close> and \<open>Verify\<close>: \<open>SigningMethod.Sign\<close> and \<open>SigningMethod.Verify\<close>
    where they return (\<open>Verify\<close> is true where the library returns a nil error);
  \<^item> \<open>EncodeSegment\<close>: the encoding of the signature segment;
  \<^item> \<open>ParseUnverified\<close>: the split of a token string into its segments and their decoding,
    with \<open>Valid\<close> false.
  What the library does with them is written out below as the library documents it
  (\<open>Token.SignedString\<close>, \<open>Validator.Validate\<close>, \<open>Parser.ParseWithClaims\<close>).
\<close>

record jwt_lib =
  SigningString :: "SigningMethod \<Rightarrow> Claims \<Rightarrow> string"
  Sign :: "SigningMethod \<Rightarrow> string \<Rightarrow> Key \<Rightarrow> jwt_error + string"
  Verify :: "SigningMethod \<Rightarrow> string \<Rightarrow> string \<Rightarrow> Key \<Rightarrow> bool"
  EncodeSegment :: "string \<Rightarrow> string"
  ParseUnverified :: "string \<Rightarrow> jwt_error list + Token"

text \<open>
  Where they do not return: the RSA methods assert the type of the key and hand the
  pointer to \<open>crypto/rsa\<close>, which dereferences it. A nil \<open>*rsa.PrivateKey\<close> in \<open>Sign\<close>
  and a nil \<open>*rsa.PublicKey\<close> in \<open>Verify\<close> pass the type assertion and panic there. A
  key of another type is an error of the library, not a panic.
\<close>

definition method_Sign ::
  "jwt_lib \<Rightarrow> SigningMethod \<Rightarrow> string \<Rightarrow> Key \<Rightarrow> (jwt_error + string) go" where
  "method_Sign lib m signingString key =
     (case (m, key) of
        (SigningMethodRSA _, KeyPrivate None) \<Rightarrow> Panic
      | _ \<Rightarrow> Return (Sign lib m signingString key))"

definition method_Verify ::
  "jwt_lib \<Rightarrow> SigningMethod \<Rightarrow> string \<Rightarrow> string \<Rightarrow> Key \<Rightarrow> bool go" where
  "method_Verify lib m signingString sig key =
     (case (m, key) of
        (SigningMethodRSA _, KeyPublic None) \<Rightarrow> Panic
      | _ \<Rightarrow> Return (Verify lib m signingString sig key))"

text \<open>\<open>Token.SignedString(key)\<close>: the signing string, a dot, the encoded signature.\<close>

definition SignedString ::
  "jwt_lib \<Rightarrow> SigningMethod \<Rightarrow> Claims \<Rightarrow> Key \<Rightarrow> (jwt_error list + string) go" where
  "SignedString lib m c key =
     (let sstr = SigningString lib m c in
      case method_Sign lib m sstr key of
        Panic \<Rightarrow> Panic
      | Return (Inl e) \<Rightarrow> Return (Inl [e])
      | Return (Inr sig) \<Rightarrow> Return (Inr (sstr @ ''.'' @ EncodeSegment lib sig)))"

text \<open>
  \<open>Validator.Validate\<close> with the default validator (no leeway, no expected issuer,
  subject or audience, \<open>iat\<close> not checked): \<open>exp\<close> passes when the clock is before it
  (\<open>now.Before(exp)\<close>), \<open>nbf\<close> passes when the clock is not before it; an absent claim
  passes. The failures are collected and joined.
\<close>

definition Validate :: "Claims \<Rightarrow> Time \<Rightarrow> jwt_error list" where
  "Validate c now =
     (case ExpiresAt c of
        None \<Rightarrow> []
      | Some exp \<Rightarrow> if now < exp then [] else [ErrTokenExpired]) @
     (case NotBefore c of
        None \<Rightarrow> []
      | Some nbf \<Rightarrow> if now < nbf then [ErrTokenNotValidYet] else [])"

text \<open>
  \<open>Parser.ParseWithClaims\<close>: parse, ask the key function for the key, verify the
  signature, validate the claims, and only then set \<open>Valid\<close>. The error is the list of
  the joined errors, so that \<open>errors.Is(err, e)\<close> is membership.
\<close>

definition ParseWithClaims ::
  "jwt_lib \<Rightarrow> string \<Rightarrow> (Token \<Rightarrow> string + Key) \<Rightarrow> Time \<Rightarrow> (jwt_error list + Token) go"
  where
  "ParseWithClaims lib tokenString keyFunc now =
     (case ParseUnverified lib tokenString of
        Inl err \<Rightarrow> Return (Inl err)
      | Inr token \<Rightarrow>
          (case keyFunc token of
             Inl _ \<Rightarrow> Return (Inl [ErrTokenUnverifiable])
           | Inr key \<Rightarrow>
               (case method_Verify lib (Method token) (SigningInput token) (Signature token)
                       key of
                  Panic \<Rightarrow> Panic
                | Return ok \<Rightarrow>
                    if \<not> ok then Return (Inl [ErrTokenSignatureInvalid])
                    else (case Validate (Token_Claims token) now of
                            [] \<Rightarrow> Return (Inr (token\<lparr>Valid := True\<rparr>))
                          | e # es \<Rightarrow> Return (Inl (ErrTokenInvalidClaims # e # es))))))"

definition errors_Is :: "jwt_error list \<Rightarrow> jwt_error \<Rightarrow> bool" where
  "errors_Is err target = (target \<in> set err)"

subsection \<open>The authenticator\<close>

record oauth2_Config =
  ClientID :: string
  ClientSecret :: string
  RedirectURL :: string
  Endpoint_AuthURL :: string
  Endpoint_TokenURL :: string
  Config_Scopes :: "string list"

record AuthConfig =
  JWTSecret :: string
  JWTPrivateKey :: "rsa_PrivateKey option"
  JWTPublicKey :: "rsa_PublicKey option"
  JWTSigningMethod :: string
  JWTExpirationTime :: Duration
  JWTIssuer :: string
  OAuth2ClientID :: string
  OAuth2ClientSecret :: string
  OAuth2RedirectURL :: string
  OAuth2AuthURL :: string
  OAuth2TokenURL :: string
  OAuth2Scopes :: "string list"

text \<open>The logger of the Go struct is an effect here: see the trace of effects below.\<close>

record Authenticator =
  jwtSigningMethod :: SigningMethod
  jwtSecret :: string
  jwtPrivateKey :: "rsa_PrivateKey option"
  jwtPublicKey :: "rsa_PublicKey option"
  jwtIssuer :: string
  jwtExpiration :: Duration
  oauth2Config :: oauth2_Config

definition NewAuthenticator :: "AuthConfig \<Rightarrow> auth_error + Authenticator" where
  "NewAuthenticator config =
     (let signingMethod =
            (if JWTSigningMethod config = ''HS256'' then SigningMethodHS256
             else if JWTSigningMethod config = ''HS384'' then SigningMethodHS384
             else if JWTSigningMethod config = ''HS512'' then SigningMethodHS512
             else if JWTSigningMethod config = ''RS256'' then SigningMethodRS256
             else if JWTSigningMethod config = ''RS384'' then SigningMethodRS384
             else if JWTSigningMethod config = ''RS512'' then SigningMethodRS512
             else SigningMethodHS256);
          oauth2Config' =
            \<lparr>ClientID = OAuth2ClientID config,
             ClientSecret = OAuth2ClientSecret config,
             RedirectURL = OAuth2RedirectURL config,
             Endpoint_AuthURL = OAuth2AuthURL config,
             Endpoint_TokenURL = OAuth2TokenURL config,
             Config_Scopes = OAuth2Scopes config\<rparr>
      in Inr \<lparr>jwtSigningMethod = signingMethod,
              jwtSecret = JWTSecret config,
              jwtPrivateKey = JWTPrivateKey config,
              jwtPublicKey = JWTPublicKey config,
              jwtIssuer = JWTIssuer config,
              jwtExpiration = JWTExpirationTime config,
              oauth2Config = oauth2Config'\<rparr>)"

text \<open>
  The claims \<open>GenerateJWTToken\<close> builds; \<open>now\<close> is what \<open>time.Now()\<close> returned and
  \<open>jti\<close> what \<open>uuid.New().String()\<close> returned.
\<close>

definition newClaims ::
  "Authenticator \<Rightarrow> Time \<Rightarrow> string \<Rightarrow> string \<Rightarrow> string list \<Rightarrow> string list \<Rightarrow> Claims" where
  "newClaims a now jti userID roles scopes =
     (let expirationTime = now + jwtExpiration a
      in \<lparr>Issuer = jwtIssuer a,
          Subject = userID,
          Audience = [],
          ExpiresAt = Some (NewNumericDate expirationTime),
          NotBefore = Some (NewNumericDate now),
          IssuedAt = Some (NewNumericDate now),
          ID = jti,
          UserID = userID,
          Roles = roles,
          Scopes = scopes\<rparr>)"

text \<open>
  The end of \<open>GenerateJWTToken\<close>: an error of the signature is wrapped
  (\<open>failed to sign token\<close>), a token string is returned; a panic of the signature is a
  panic of \<open>GenerateJWTToken\<close>.
\<close>

definition signed :: "(jwt_error list + string) go \<Rightarrow> (auth_error + string) go" where
  "signed result =
     (case result of
        Panic \<Rightarrow> Panic
      | Return (Inl err) \<Rightarrow> Return (Inl (FailedToSign err))
      | Return (Inr tokenString) \<Rightarrow> Return (Inr tokenString))"

definition GenerateJWTToken ::
  "jwt_lib \<Rightarrow> Authenticator \<Rightarrow> Time \<Rightarrow> string \<Rightarrow> string \<Rightarrow> string list \<Rightarrow> string list
     \<Rightarrow> (auth_error + string) go" where
  "GenerateJWTToken lib a now jti userID roles scopes =
     (let claims = newClaims a now jti userID roles scopes in
      case jwtSigningMethod a of
        SigningMethodHMAC _ \<Rightarrow>
          signed (SignedString lib (jwtSigningMethod a) claims (KeyBytes (jwtSecret a)))
      | SigningMethodRSA _ \<Rightarrow>
          signed (SignedString lib (jwtSigningMethod a) claims (KeyPrivate (jwtPrivateKey a)))
      | SigningMethodOther _ \<Rightarrow> Return (Inl UnsupportedSigningMethod))"

text \<open>The key function \<open>VerifyJWTToken\<close> passes to the parser.\<close>

definition keyFunc :: "Authenticator \<Rightarrow> Token \<Rightarrow> string + Key" where
  "keyFunc a token =
     (case Method token of
        SigningMethodHMAC _ \<Rightarrow> Inr (KeyBytes (jwtSecret a))
      | SigningMethodRSA _ \<Rightarrow> Inr (KeyPublic (jwtPublicKey a))
      | SigningMethodOther alg \<Rightarrow> Inl (''unexpected signing method: '' @ alg))"

text \<open>
  \<open>VerifyJWTToken\<close>: the key function returns the public key as it is configured, nil
  or not; a panic of the parser is a panic of \<open>VerifyJWTToken\<close>.
\<close>

definition VerifyJWTToken ::
  "jwt_lib \<Rightarrow> Authenticator \<Rightarrow> Time \<Rightarrow> string \<Rightarrow> (auth_error + Claims) go" where
  "VerifyJWTToken lib a now tokenString =
     (case ParseWithClaims lib tokenString (keyFunc a) now of
        Panic \<Rightarrow> Panic
      | Return (Inl err) \<Rightarrow>
          if errors_Is err ErrTokenExpired then Return (Inl ErrExpiredToken)
          else Return (Inl ErrInvalidToken)
      | Return (Inr token) \<Rightarrow>
          if \<not> Valid token then Return (Inl ErrInvalidToken)
          else Return (Inr (Token_Claims token)))"

subsection \<open>Requests, contexts and effects\<close>

text \<open>
  A \<open>context.Context\<close> is the chain of the values stored in it, the latest first. Keys
  compare by type and value: the keys of this package are of type \<open>auth.ContextKey\<close>, the
  keys of any other type are \<open>ForeignKey\<close>. A stored value is of some dynamic type; the
  accessors assert \<open>*Claims\<close>, \<open>[]string\<close> and \<open>string\<close>.
\<close>

datatype ctx_key = ContextKey string | ForeignKey string

datatype ctx_value =
    ClaimsValue Claims
  | StringSliceValue "string list"
  | StringValue string
  | ForeignValue string

type_synonym Context = "(ctx_key \<times> ctx_value) list"

definition ClaimsContextKey :: ctx_key where
  "ClaimsContextKey = ContextKey ''claims''"

definition ScopesContextKey :: ctx_key where
  "ScopesContextKey = ContextKey ''scopes''"

definition UserIDContextKey :: ctx_key where
  "UserIDContextKey = ContextKey ''user_id''"

definition context_WithValue :: "Context \<Rightarrow> ctx_key \<Rightarrow> ctx_value \<Rightarrow> Context" where
  "context_WithValue ctx key val = (key, val) # ctx"

definition Context_Value :: "Context \<Rightarrow> ctx_key \<Rightarrow> ctx_value option" where
  "Context_Value ctx key = map_of ctx key"

text \<open>The request: its headers and its context (the fields the package reads).\<close>

record Request =
  Header :: Header
  Ctx :: Context

definition WithContext :: "Request \<Rightarrow> Context \<Rightarrow> Request" where
  "WithContext r ctx = r\<lparr>Ctx := ctx\<rparr>"

text \<open>
  What a handler does is the trace of its calls on the response writer and on the
  logger, in order: \<open>http.Error(w, msg, code)\<close>, which answers with the status \<open>code\<close>
  and the message as the plain-text body; \<open>log.Debug(msg, fields...)\<close>; and for the
  handlers downstream any write of a status and a body. A handler is applied to the
  trace so far and returns the trace extended. A handler that panics writes nothing
  more: its trace ends with \<open>Panicked\<close>, and what follows is up to the recovery of the
  caller (the \<open>Recover\<close> middleware of the server answers 500).
\<close>

datatype log_field = Field_Error auth_error | Field_String string string

datatype effect =
    HttpError string nat
  | LogDebug string "log_field list"
  | Respond nat string
  | Panicked

type_synonym Handler = "effect list \<Rightarrow> Request \<Rightarrow> effect list"

definition StatusUnauthorized :: nat where
  "StatusUnauthorized = 401"

definition StatusForbidden :: nat where
  "StatusForbidden = 403"

subsection \<open>Bearer extraction\<close>

definition ExtractBearerToken :: "Request \<Rightarrow> auth_error + string" where
  "ExtractBearerToken r =
     (let authHeader = Header_Get (Header r) ''Authorization'' in
      if authHeader = [] then Inl ErrMissingToken
      else (let parts = strings_Split authHeader CHR '' '' in
            if length parts \<noteq> 2 \<or> parts ! 0 \<noteq> ''Bearer'' then Inl ErrInvalidToken
            else Inr (parts ! 1)))"

subsection \<open>The scope check of the middlewares\<close>

text \<open>
  The inner loop over the scopes of the token, for one required scope, and the outer
  loop over the required scopes; both stop at the first match.
\<close>

fun tokenScopesLoop :: "string \<Rightarrow> string list \<Rightarrow> bool" where
  "tokenScopesLoop requiredScope [] = False"
| "tokenScopesLoop requiredScope (tokenScope # rest) =
     (if tokenScope = requiredScope \<or> tokenScope = ''admin'' then True
      else tokenScopesLoop requiredScope rest)"

fun requiredScopesLoop :: "string list \<Rightarrow> string list \<Rightarrow> bool" where
  "requiredScopesLoop [] tokenScopes = False"
| "requiredScopesLoop (requiredScope # rest) tokenScopes =
     (if tokenScopesLoop requiredScope tokenScopes then True
      else requiredScopesLoop rest tokenScopes)"

text \<open>
  The decision both middlewares take from the loops: with no required scope the request
  passes; otherwise it passes when the loops found a match (\<open>hasScope\<close>).
\<close>

definition scopeGate :: "string list \<Rightarrow> string list \<Rightarrow> bool" where
  "scopeGate requiredScopes tokenScopes =
     (if length requiredScopes > 0 then requiredScopesLoop requiredScopes tokenScopes
      else True)"

subsection \<open>The middlewares\<close>

text \<open>
  \<open>now\<close> is the clock the token library reads while it validates. The middleware is
  applied to the next handler, the trace so far and the request.
\<close>

definition JWTAuthMiddleware ::
  "jwt_lib \<Rightarrow> Authenticator \<Rightarrow> Time \<Rightarrow> string list \<Rightarrow> Handler \<Rightarrow> Handler" where
  "JWTAuthMiddleware lib a now requiredScopes next w r =
     (case ExtractBearerToken r of
        Inl err \<Rightarrow>
          w @ [LogDebug ''JWT auth failed'' [Field_Error err],
               HttpError ''Unauthorized'' StatusUnauthorized]
      | Inr token \<Rightarrow>
          (case VerifyJWTToken lib a now token of
             Panic \<Rightarrow> w @ [Panicked]
           | Return (Inl err) \<Rightarrow>
               w @ [LogDebug ''JWT verification failed'' [Field_Error err],
                    (if err = ErrExpiredToken
                     then HttpError ''Token expired'' StatusUnauthorized
                     else HttpError ''Unauthorized'' StatusUnauthorized)]
           | Return (Inr claims) \<Rightarrow>
               if \<not> scopeGate requiredScopes (Scopes claims)
               then w @ [LogDebug ''Insufficient scope''
                           [Field_String ''required'' (strings_Join requiredScopes '',''),
                            Field_String ''provided'' (strings_Join (Scopes claims) '','')],
                         HttpError ''Forbidden: insufficient scope'' StatusForbidden]
               else (let ctx = context_WithValue (Ctx r) ClaimsContextKey (ClaimsValue claims);
                         ctx = context_WithValue ctx ScopesContextKey
                                 (StringSliceValue (Scopes claims));
                         ctx = context_WithValue ctx UserIDContextKey
                                 (StringValue (UserID claims))
                     in next w (WithContext r ctx))))"

definition OAuth2AuthMiddleware ::
  "Authenticator \<Rightarrow> string list \<Rightarrow> Handler \<Rightarrow> Handler" where
  "OAuth2AuthMiddleware a requiredScopes next w r =
     (case ExtractBearerToken r of
        Inl err \<Rightarrow>
          w @ [LogDebug ''OAuth2 auth failed'' [Field_Error err],
               HttpError ''Unauthorized'' StatusUnauthorized]
      | Inr _ \<Rightarrow>
          (let ctx = Ctx r;
               scopes = [''read'', ''write''];
               userID = ''oauth2-user-123''
           in if \<not> scopeGate requiredScopes scopes
              then w @ [LogDebug ''Insufficient OAuth2 scope''
                          [Field_String ''required'' (strings_Join requiredScopes '',''),
                           Field_String ''provided'' (strings_Join scopes '','')],
                        HttpError ''Forbidden: insufficient scope'' StatusForbidden]
              else (let ctx = context_WithValue ctx ScopesContextKey (StringSliceValue scopes);
                        ctx = context_WithValue ctx UserIDContextKey (StringValue userID)
                    in next w (WithContext r ctx))))"

subsection \<open>The context accessors\<close>

definition GetUserID :: "Context \<Rightarrow> string \<times> bool" where
  "GetUserID ctx =
     (case Context_Value ctx UserIDContextKey of
        Some (StringValue userID) \<Rightarrow> (userID, True)
      | _ \<Rightarrow> ([], False))"

definition GetScopes :: "Context \<Rightarrow> string list \<times> bool" where
  "GetScopes ctx =
     (case Context_Value ctx ScopesContextKey of
        Some (StringSliceValue scopes) \<Rightarrow> (scopes, True)
      | _ \<Rightarrow> ([], False))"

definition GetClaims :: "Context \<Rightarrow> Claims option \<times> bool" where
  "GetClaims ctx =
     (case Context_Value ctx ClaimsContextKey of
        Some (ClaimsValue claims) \<Rightarrow> (Some claims, True)
      | _ \<Rightarrow> (None, False))"

subsection \<open>What the proofs ask of the token library\<close>

text \<open>
  The library honours the claims \<open>c\<close> as \<open>parsed\<close> under the method \<open>m\<close> and a pair of
  keys when it signs \<open>c\<close> with the first key, its verification accepts that signature
  with the second, and its parser reads the token string it produced back into the
  method, the claims \<open>parsed\<close>, the signed text and the signature.
\<close>

definition honours ::
  "jwt_lib \<Rightarrow> SigningMethod \<Rightarrow> Key \<Rightarrow> Key \<Rightarrow> Claims \<Rightarrow> Claims \<Rightarrow> bool" where
  "honours lib m signKey verifyKey c parsed =
     (let sstr = SigningString lib m c in
      case method_Sign lib m sstr signKey of
        Return (Inr sig) \<Rightarrow>
          method_Verify lib m sstr sig verifyKey = Return True \<and>
          ParseUnverified lib (sstr @ ''.'' @ EncodeSegment lib sig) =
            Inr \<lparr>Method = m, Token_Claims = parsed, SigningInput = sstr, Signature = sig,
                 Valid = False\<rparr>
      | _ \<Rightarrow> False)"

text \<open>
  The same for the keys of an authenticator: the secret on both sides for an HMAC
  method, the private and the public key for an RSA method.
\<close>

definition serves_as :: "jwt_lib \<Rightarrow> Authenticator \<Rightarrow> Claims \<Rightarrow> Claims \<Rightarrow> bool" where
  "serves_as lib a c parsed =
     (case jwtSigningMethod a of
        SigningMethodHMAC _ \<Rightarrow>
          honours lib (jwtSigningMethod a) (KeyBytes (jwtSecret a)) (KeyBytes (jwtSecret a))
            c parsed
      | SigningMethodRSA _ \<Rightarrow>
          honours lib (jwtSigningMethod a) (KeyPrivate (jwtPrivateKey a))
            (KeyPublic (jwtPublicKey a)) c parsed
      | SigningMethodOther _ \<Rightarrow> False)"


definition carries :: "jwt_lib \<Rightarrow> Authenticator \<Rightarrow> Claims \<Rightarrow> bool" where
  "carries lib a c = serves_as lib a c (wire_claims c)"

text \<open>
  A token string is accepted for an authenticator and claims \<open>c\<close> when the library parses
  it into \<open>c\<close> and verifies its signature with the key the key function returns.
\<close>

definition accepts :: "jwt_lib \<Rightarrow> Authenticator \<Rightarrow> string \<Rightarrow> Claims \<Rightarrow> bool" where
  "accepts lib a tokenString c =
     (case ParseUnverified lib tokenString of
        Inl _ \<Rightarrow> False
      | Inr token \<Rightarrow>
          Token_Claims token = c \<and>
          (case keyFunc a token of
             Inl _ \<Rightarrow> False
           | Inr key \<Rightarrow>
               method_Verify lib (Method token) (SigningInput token) (Signature token) key
                 = Return True))"

subsection \<open>The contexts the middlewares build\<close>

definition jwtContext :: "Context \<Rightarrow> Claims \<Rightarrow> Context" where
  "jwtContext ctx claims =
     context_WithValue
       (context_WithValue
          (context_WithValue ctx ClaimsContextKey (ClaimsValue claims))
          ScopesContextKey (StringSliceValue (Scopes claims)))
       UserIDContextKey (StringValue (UserID claims))"

definition oauth2Context :: "Context \<Rightarrow> Context" where
  "oauth2Context ctx =
     context_WithValue
       (context_WithValue ctx ScopesContextKey (StringSliceValue [''read'', ''write'']))
       UserIDContextKey (StringValue ''oauth2-user-123'')"

subsection \<open>Concrete inputs for the examples\<close>

text \<open>
  A stand-in for the library with a code book of one entry: it encodes the claims \<open>c\<close>
  under the method \<open>m\<close> as \<open>hdr.pld\<close> and decodes nothing else; a signature is a tag
  followed by the secret, or a tag for an RSA key.
\<close>

definition stub_lib :: "SigningMethod \<Rightarrow> Claims \<Rightarrow> jwt_lib" where
  "stub_lib m c =
     \<lparr>SigningString = (\<lambda>m' c'. if m' = m \<and> c' = c then ''hdr.pld'' else ''hdr.other''),
      Sign = (\<lambda>m' sstr key.
                case key of
                  KeyBytes secret \<Rightarrow> Inr (''mac-'' @ secret)
                | KeyPrivate (Some k) \<Rightarrow> Inr ''rsa''
                | _ \<Rightarrow> Inl ErrInvalidKey),
      Verify = (\<lambda>m' sstr sig key.
                  case key of
                    KeyBytes secret \<Rightarrow> sig = ''mac-'' @ secret
                  | KeyPublic (Some k) \<Rightarrow> sig = ''rsa''
                  | _ \<Rightarrow> False),
      EncodeSegment = (\<lambda>sig. sig),
      ParseUnverified = (\<lambda>tokenString.
                  if take 8 tokenString = ''hdr.pld.''
                  then Inr \<lparr>Method = m, Token_Claims = c, SigningInput = ''hdr.pld'',
                            Signature = drop 8 tokenString, Valid = False\<rparr>
                  else Inl [ErrTokenMalformed])\<rparr>"

text \<open>
  The stand-in with the decoding of JSON: its parser returns the claims as JSON carries
  them.
\<close>

definition json_stub_lib :: "SigningMethod \<Rightarrow> Claims \<Rightarrow> jwt_lib" where
  "json_stub_lib m c =
     (stub_lib m c)
       \<lparr>ParseUnverified := (\<lambda>tokenString.
          case ParseUnverified (stub_lib m c) tokenString of
            Inl err \<Rightarrow> Inl err
          | Inr token \<Rightarrow> Inr (token\<lparr>Token_Claims := wire_claims (Token_Claims token)\<rparr>))\<rparr>"

text \<open>
  A configuration as the server builds it (secret, method name, lifetime, issuer), with
  the lifetime and the method name left open, and its authenticator.
\<close>

definition demo_config :: "string \<Rightarrow> Duration \<Rightarrow> AuthConfig" where
  "demo_config method lifetime =
     \<lparr>JWTSecret = ''s3cret'',
      JWTPrivateKey = None,
      JWTPublicKey = None,
      JWTSigningMethod = method,
      JWTExpirationTime = lifetime,
      JWTIssuer = ''api-template'',
      OAuth2ClientID = ''example-client-id'',
      OAuth2ClientSecret = ''example-client-secret'',
      OAuth2RedirectURL = ''http://localhost:8080/auth/callback'',
      OAuth2AuthURL = ''https://example.com/oauth/authorize'',
      OAuth2TokenURL = ''https://example.com/oauth/token'',
      OAuth2Scopes = [''read'', ''write'']\<rparr>"

definition demo_auth :: "string \<Rightarrow> Duration \<Rightarrow> Authenticator" where
  "demo_auth method lifetime = projr (NewAuthenticator (demo_config method lifetime))"

text \<open>A request with one \<open>Authorization\<close> value and a given context.\<close>

definition demo_request :: "string \<Rightarrow> Context \<Rightarrow> Request" where
  "demo_request authorization ctx =
     \<lparr>Header = (\<lambda>key. if key = ''Authorization'' then [authorization] else []),
      Ctx = ctx\<rparr>"

text \<open>
  A downstream handler that reports what the accessors find in the context it is given.
\<close>

definition demo_next :: Handler where
  "demo_next w r =
     w @ [Respond 200
            (''user='' @ fst (GetUserID (Ctx r)) @
             '' scopes='' @ strings_Join (fst (GetScopes (Ctx r))) '','' @
             '' claims='' @ (if snd (GetClaims (Ctx r)) then ''yes'' else ''no''))]"

text \<open>
  The claims of a token for the user \<open>u1\<close> under \<open>HS256\<close>, and the stand-in library that
  encodes them.
\<close>

definition demo_claims :: "Duration \<Rightarrow> Time \<Rightarrow> string list \<Rightarrow> Claims" where
  "demo_claims lifetime now scopes =
     newClaims (demo_auth ''HS256'' lifetime) now ''id-1'' ''u1'' [''user''] scopes"

definition demo_lib :: "Duration \<Rightarrow> Time \<Rightarrow> string list \<Rightarrow> jwt_lib" where
  "demo_lib lifetime now scopes =
     stub_lib SigningMethodHS256 (demo_claims lifetime now scopes)"

section \<open>Lemmas\<close>

subsection \<open>Splitting and joining\<close>

lemma strings_Split_not_Nil: "strings_Split s sep \<noteq> []"
  by (induction s) (auto split: list.splits)

lemma strings_Split_single: "strings_Split s sep = [p] \<longleftrightarrow> s = p \<and> sep \<notin> set p"
proof (induction s arbitrary: p)
  case Nil
  then show ?case by auto
next
  case (Cons c cs)
  show ?case
  proof (cases "c = sep")
    case True
    then show ?thesis using strings_Split_not_Nil[of cs sep] by auto
  next
    case False
    then show ?thesis using Cons[of "tl p"] strings_Split_not_Nil[of cs sep]
      by (cases p) (auto split: list.splits)
  qed
qed

lemma strings_Split_pair:
  "strings_Split s sep = [p, q] \<longleftrightarrow> s = p @ sep # q \<and> sep \<notin> set p \<and> sep \<notin> set q"
proof (induction s arbitrary: p)
  case Nil
  then show ?case by auto
next
  case (Cons c cs)
  show ?case
  proof (cases "c = sep")
    case True
    then show ?thesis using strings_Split_single[of cs sep q]
      by (cases p) auto
  next
    case False
    then show ?thesis using Cons[of "tl p"] strings_Split_not_Nil[of cs sep]
      by (cases p) (auto split: list.splits)
  qed
qed

text \<open>The model of \<open>strings.Split\<close> agrees with two laws of the Go function.\<close>

lemma strings_Split_length: "length (strings_Split s sep) = Suc (count_list s sep)"
  by (induction s) (auto split: list.splits)

lemma strings_Join_Split: "strings_Join (strings_Split s sep) [sep] = s"
proof (induction s)
  case Nil
  then show ?case by simp
next
  case (Cons c cs)
  then show ?case
    using strings_Split_not_Nil[of cs sep]
    by (cases "strings_Split cs sep"; cases "tl (strings_Split cs sep)") (auto split: list.splits)
qed

subsection \<open>Bearer extraction\<close>

lemma ExtractBearerToken_Inr:
  "ExtractBearerToken r = Inr t \<longleftrightarrow>
     strings_Split (Header_Get (Header r) ''Authorization'') CHR '' '' = [''Bearer'', t]"
proof -
  let ?h = "Header_Get (Header r) ''Authorization''"
  let ?parts = "strings_Split ?h CHR '' ''"
  show ?thesis
  proof (cases "?h = []")
    case True
    then show ?thesis by (simp add: ExtractBearerToken_def)
  next
    case False
    show ?thesis
    proof (cases "length ?parts = 2")
      case True
      then obtain x y where xy: "?parts = [x, y]"
        by (cases ?parts; cases "tl ?parts"; cases "tl (tl ?parts)") auto
      with False show ?thesis by (auto simp: ExtractBearerToken_def Let_def)
    next
      case False
      with \<open>?h \<noteq> []\<close> show ?thesis by (auto simp: ExtractBearerToken_def Let_def)
    qed
  qed
qed

lemma ExtractBearerToken_Inl:
  "ExtractBearerToken r = Inl e \<longleftrightarrow>
     (if Header_Get (Header r) ''Authorization'' = [] then e = ErrMissingToken
      else e = ErrInvalidToken \<and>
           (\<forall>t. strings_Split (Header_Get (Header r) ''Authorization'') CHR '' ''
                  \<noteq> [''Bearer'', t]))"
proof (cases "Header_Get (Header r) ''Authorization'' = []")
  case True
  then show ?thesis by (auto simp: ExtractBearerToken_def)
next
  case False
  let ?parts = "strings_Split (Header_Get (Header r) ''Authorization'') CHR '' ''"
  show ?thesis
  proof (cases "\<exists>t. ?parts = [''Bearer'', t]")
    case True
    then obtain t where "?parts = [''Bearer'', t]" by blast
    then have "ExtractBearerToken r = Inr t" by (simp add: ExtractBearerToken_Inr)
    with True False show ?thesis by auto
  next
    case no: False
    have "ExtractBearerToken r \<noteq> Inr t" for t
      using no by (simp add: ExtractBearerToken_Inr)
    moreover have "ExtractBearerToken r = Inl ErrInvalidToken \<or> (\<exists>t. ExtractBearerToken r = Inr t)"
      using False by (auto simp: ExtractBearerToken_def Let_def)
    ultimately have "ExtractBearerToken r = Inl ErrInvalidToken" by blast
    with no False show ?thesis by auto
  qed
qed

subsection \<open>The scope loops\<close>

lemma tokenScopesLoop_iff:
  "tokenScopesLoop requiredScope tokenScopes \<longleftrightarrow>
     requiredScope \<in> set tokenScopes \<or> ''admin'' \<in> set tokenScopes"
  by (induction tokenScopes) auto

lemma requiredScopesLoop_iff:
  "requiredScopesLoop requiredScopes tokenScopes \<longleftrightarrow>
     requiredScopes \<noteq> [] \<and>
     ((\<exists>s \<in> set requiredScopes. s \<in> set tokenScopes) \<or> ''admin'' \<in> set tokenScopes)"
  by (induction requiredScopes) (auto simp: tokenScopesLoop_iff)

subsection \<open>Whole seconds\<close>

lemma NewNumericDate_le: "NewNumericDate t \<le> t"
  unfolding NewNumericDate_def Second_def
  by (simp add: mult.commute)

lemma NewNumericDate_mono: "s \<le> t \<Longrightarrow> NewNumericDate s \<le> NewNumericDate t"
  unfolding NewNumericDate_def Second_def
  by (simp add: zdiv_mono1)

lemma NewNumericDate_add_seconds:
  "NewNumericDate (t + k * Second) = NewNumericDate t + k * Second"
  unfolding NewNumericDate_def Second_def
  by (simp add: algebra_simps)

lemma NewNumericDate_strict:
  assumes "Second \<le> d"
  shows "NewNumericDate t < NewNumericDate (t + d)"
proof -
  have "NewNumericDate t < NewNumericDate t + 1 * Second"
    by (simp add: Second_def)
  also have "\<dots> = NewNumericDate (t + 1 * Second)"
    by (simp only: NewNumericDate_add_seconds)
  also have "\<dots> \<le> NewNumericDate (t + d)"
    using assms by (intro NewNumericDate_mono) simp
  finally show ?thesis .
qed

subsection \<open>Strings as JSON carries them\<close>

lemma length_json_bytes: "length s \<le> length (json_bytes k s)"
  by (induction k s rule: json_bytes.induct) (auto simp: RuneError_def split: nat.splits)

lemma json_bytes_valid: "json_bytes k s = s \<longleftrightarrow> valid_bytes k s"
proof (induction k s rule: json_bytes.induct)
  case (1 k)
  then show ?case by simp
next
  case (2 k b rest)
  then show ?case by simp
next
  case (3 b rest)
  show ?case
  proof (cases "byte_in b 0 127")
    case True
    with 3 show ?thesis by simp
  next
    case False
    show ?thesis
    proof (cases "utf8_following (b # rest)")
      case 0
      have "length (RuneError @ json_bytes 0 rest) \<noteq> length (b # rest)"
        using length_json_bytes[of rest 0] by (simp add: RuneError_def)
      then have "RuneError @ json_bytes 0 rest \<noteq> b # rest"
        by metis
      with False 0 show ?thesis by simp
    next
      case (Suc n)
      with False 3 show ?thesis by simp
    qed
  qed
qed

lemma json_string_valid: "json_string s = s \<longleftrightarrow> utf8_ValidString s"
  by (simp add: json_string_def utf8_ValidString_def json_bytes_valid)

lemma map_json_string_valid:
  "list_all utf8_ValidString xs \<Longrightarrow> map json_string xs = xs"
  by (induction xs) (auto simp: json_string_valid)

lemma json_string_ascii:
  assumes "list_all (\<lambda>b. byte_in b 0 127) s"
  shows "json_string s = s"
proof -
  have "json_bytes 0 s = s" using assms by (induction s) auto
  then show ?thesis by (simp add: json_string_def)
qed

lemma NewNumericDate_idem: "NewNumericDate (NewNumericDate t) = NewNumericDate t"
  unfolding NewNumericDate_def Second_def by simp

subsection \<open>Issuing and verifying\<close>

lemma VerifyJWTToken_accepts:
  assumes "accepts lib a tokenString c"
  shows "VerifyJWTToken lib a t tokenString =
           (if Validate c t = [] then Return (Inr c)
            else if ErrTokenExpired \<in> set (Validate c t) then Return (Inl ErrExpiredToken)
            else Return (Inl ErrInvalidToken))"
  using assms
  by (auto simp: accepts_def VerifyJWTToken_def ParseWithClaims_def errors_Is_def
      split: sum.splits list.splits)

lemma GenerateJWTToken_accepts:
  assumes "serves_as lib a (newClaims a now jti userID roles scopes) parsed"
  shows "\<exists>tokenString.
           GenerateJWTToken lib a now jti userID roles scopes = Return (Inr tokenString) \<and>
           accepts lib a tokenString parsed"
  using assms
  by (cases "jwtSigningMethod a")
     (auto simp: serves_as_def honours_def GenerateJWTToken_def signed_def SignedString_def
        accepts_def keyFunc_def Let_def split: go.splits sum.splits)

lemma Validate_newClaims:
  "Validate (newClaims a now jti userID roles scopes) t =
     (if t < NewNumericDate (now + jwtExpiration a) then [] else [ErrTokenExpired]) @
     (if t < NewNumericDate now then [ErrTokenNotValidYet] else [])"
  by (simp add: Validate_def newClaims_def)

lemma Validate_wire_claims_newClaims:
  "Validate (wire_claims (newClaims a now jti userID roles scopes)) t =
     Validate (newClaims a now jti userID roles scopes) t"
  by (simp add: Validate_def newClaims_def wire_claims_def NewNumericDate_idem)

lemma VerifyJWTToken_newClaims:
  assumes "accepts lib a tokenString (newClaims a now jti userID roles scopes)"
  shows "VerifyJWTToken lib a t tokenString =
           (if NewNumericDate (now + jwtExpiration a) \<le> t then Return (Inl ErrExpiredToken)
            else if t < NewNumericDate now then Return (Inl ErrInvalidToken)
            else Return (Inr (newClaims a now jti userID roles scopes)))"
  by (simp add: VerifyJWTToken_accepts[OF assms] Validate_newClaims)

lemma VerifyJWTToken_wire_claims:
  assumes "accepts lib a tokenString (wire_claims (newClaims a now jti userID roles scopes))"
  shows "VerifyJWTToken lib a t tokenString =
           (if NewNumericDate (now + jwtExpiration a) \<le> t then Return (Inl ErrExpiredToken)
            else if t < NewNumericDate now then Return (Inl ErrInvalidToken)
            else Return (Inr (wire_claims (newClaims a now jti userID roles scopes))))"
  by (simp add: VerifyJWTToken_accepts[OF assms] Validate_wire_claims_newClaims
      Validate_newClaims)

text \<open>Where the two calls panic, and only there.\<close>

lemma GenerateJWTToken_Panic:
  "GenerateJWTToken lib a now jti userID roles scopes = Panic \<longleftrightarrow>
     (\<exists>h. jwtSigningMethod a = SigningMethodRSA h) \<and> jwtPrivateKey a = None"
  by (cases "jwtSigningMethod a")
     (auto simp: GenerateJWTToken_def signed_def SignedString_def method_Sign_def Let_def
        split: go.splits sum.splits option.splits Key.splits)

lemma VerifyJWTToken_Panic:
  "VerifyJWTToken lib a now tokenString = Panic \<longleftrightarrow>
     (\<exists>token h. ParseUnverified lib tokenString = Inr token \<and>
                Method token = SigningMethodRSA h) \<and> jwtPublicKey a = None"
proof (cases "ParseUnverified lib tokenString")
  case (Inl err)
  then show ?thesis by (simp add: VerifyJWTToken_def ParseWithClaims_def)
next
  case (Inr token)
  then show ?thesis
    by (cases "Method token")
       (auto simp: VerifyJWTToken_def ParseWithClaims_def keyFunc_def method_Verify_def
          split: go.splits sum.splits list.splits option.splits)
qed

subsection \<open>The middlewares by cases\<close>

lemma JWTAuthMiddleware_pass:
  assumes "ExtractBearerToken r = Inr token"
    and "VerifyJWTToken lib a now token = Return (Inr claims)"
    and "scopeGate requiredScopes (Scopes claims)"
  shows "JWTAuthMiddleware lib a now requiredScopes next w r =
           next w (WithContext r (jwtContext (Ctx r) claims))"
  using assms by (simp add: JWTAuthMiddleware_def jwtContext_def)

lemma jwtContext_accessors:
  "GetClaims (jwtContext ctx claims) = (Some claims, True)"
  "GetScopes (jwtContext ctx claims) = (Scopes claims, True)"
  "GetUserID (jwtContext ctx claims) = (UserID claims, True)"
  by (simp_all add: jwtContext_def GetClaims_def GetScopes_def GetUserID_def Context_Value_def
      context_WithValue_def ClaimsContextKey_def ScopesContextKey_def UserIDContextKey_def)

lemma JWTAuthMiddleware_rejects:
  "(ExtractBearerToken r = Inl e \<longrightarrow>
      JWTAuthMiddleware lib a now requiredScopes next w r =
        w @ [LogDebug ''JWT auth failed'' [Field_Error e],
             HttpError ''Unauthorized'' 401]) \<and>
   (ExtractBearerToken r = Inr token \<and>
    VerifyJWTToken lib a now token = Return (Inl ErrExpiredToken) \<longrightarrow>
      JWTAuthMiddleware lib a now requiredScopes next w r =
        w @ [LogDebug ''JWT verification failed'' [Field_Error ErrExpiredToken],
             HttpError ''Token expired'' 401]) \<and>
   (ExtractBearerToken r = Inr token \<and> VerifyJWTToken lib a now token = Return (Inl e') \<and>
    e' \<noteq> ErrExpiredToken \<longrightarrow>
      JWTAuthMiddleware lib a now requiredScopes next w r =
        w @ [LogDebug ''JWT verification failed'' [Field_Error e'],
             HttpError ''Unauthorized'' 401]) \<and>
   (ExtractBearerToken r = Inr token \<and>
    VerifyJWTToken lib a now token = Return (Inr claims) \<and>
    \<not> scopeGate requiredScopes (Scopes claims) \<longrightarrow>
      JWTAuthMiddleware lib a now requiredScopes next w r =
        w @ [LogDebug ''Insufficient scope''
               [Field_String ''required'' (strings_Join requiredScopes '',''),
                Field_String ''provided'' (strings_Join (Scopes claims) '','')],
             HttpError ''Forbidden: insufficient scope'' 403])"
  by (simp add: JWTAuthMiddleware_def StatusUnauthorized_def StatusForbidden_def)

lemma JWTAuthMiddleware_panics:
  assumes "ExtractBearerToken r = Inr token"
    and "VerifyJWTToken lib a now token = Panic"
  shows "JWTAuthMiddleware lib a now requiredScopes next w r = w @ [Panicked]"
  using assms by (simp add: JWTAuthMiddleware_def)

lemma OAuth2AuthMiddleware_cases:
  "OAuth2AuthMiddleware a requiredScopes next w r =
     (case ExtractBearerToken r of
        Inl e \<Rightarrow> w @ [LogDebug ''OAuth2 auth failed'' [Field_Error e],
                       HttpError ''Unauthorized'' 401]
      | Inr token \<Rightarrow>
          if scopeGate requiredScopes [''read'', ''write'']
          then next w (WithContext r (oauth2Context (Ctx r)))
          else w @ [LogDebug ''Insufficient OAuth2 scope''
                      [Field_String ''required'' (strings_Join requiredScopes '',''),
                       Field_String ''provided'' ''read,write''],
                    HttpError ''Forbidden: insufficient scope'' 403])"
  by (simp add: OAuth2AuthMiddleware_def oauth2Context_def StatusUnauthorized_def
      StatusForbidden_def split: sum.splits)

lemma oauth2Context_accessors:
  "GetScopes (oauth2Context ctx) = ([''read'', ''write''], True)"
  "GetUserID (oauth2Context ctx) = (''oauth2-user-123'', True)"
  "GetClaims (oauth2Context ctx) = GetClaims ctx"
  by (simp_all add: oauth2Context_def GetClaims_def GetScopes_def GetUserID_def Context_Value_def
      context_WithValue_def ClaimsContextKey_def ScopesContextKey_def UserIDContextKey_def)

subsection \<open>The concrete inputs\<close>

lemma jwtExpiration_demo_auth: "jwtExpiration (demo_auth method L) = L"
  by (simp add: demo_auth_def NewAuthenticator_def demo_config_def)


lemma demo_generate:
  "GenerateJWTToken (demo_lib L now scopes) (demo_auth ''HS256'' L) now ''id-1'' ''u1''
     [''user''] scopes = Return (Inr ''hdr.pld.mac-s3cret'')"
  by (simp add: demo_lib_def demo_claims_def GenerateJWTToken_def signed_def SignedString_def
      method_Sign_def stub_lib_def
      demo_auth_def NewAuthenticator_def demo_config_def)

lemma demo_accepts:
  "accepts (demo_lib L now scopes) (demo_auth ''HS256'' L) ''hdr.pld.mac-s3cret''
     (demo_claims L now scopes)"
  by (simp add: demo_lib_def accepts_def stub_lib_def keyFunc_def method_Verify_def
      demo_auth_def NewAuthenticator_def demo_config_def)

lemma demo_verify:
  "VerifyJWTToken (demo_lib L now scopes) (demo_auth ''HS256'' L) t ''hdr.pld.mac-s3cret'' =
     (if NewNumericDate (now + L) \<le> t then Return (Inl ErrExpiredToken)
      else if t < NewNumericDate now then Return (Inl ErrInvalidToken)
      else Return (Inr (demo_claims L now scopes)))"
  using VerifyJWTToken_newClaims[of "demo_lib L now scopes" "demo_auth ''HS256'' L"
      "''hdr.pld.mac-s3cret''" now "''id-1''" "''u1''" "[''user'']" scopes t]
    demo_accepts[of L now scopes]
  by (simp add: demo_claims_def jwtExpiration_demo_auth)

lemma demo_verify_garbage:
  "VerifyJWTToken (demo_lib L now scopes) a t ''garbage'' = Return (Inl ErrInvalidToken)"
  by (simp add: VerifyJWTToken_def ParseWithClaims_def demo_lib_def stub_lib_def errors_Is_def)

lemma demo_claims_Scopes: "Scopes (demo_claims L now scopes) = scopes"
  by (simp add: demo_claims_def newClaims_def)

lemma demo_claims_UserID: "UserID (demo_claims L now scopes) = ''u1''"
  by (simp add: demo_claims_def newClaims_def)

lemma demo_bearer:
  "ExtractBearerToken (demo_request ''Bearer hdr.pld.mac-s3cret'' ctx)
     = Inr ''hdr.pld.mac-s3cret''"
  by (simp add: ExtractBearerToken_def demo_request_def Header_Get_def)

lemma demo_bearer_anything:
  "ExtractBearerToken (demo_request ''Bearer anything'' ctx) = Inr ''anything''"
  by (simp add: ExtractBearerToken_def demo_request_def Header_Get_def)

lemma WithContext_demo_request:
  "WithContext (demo_request authorization ctx) ctx' = demo_request authorization ctx'"
  by (simp add: WithContext_def demo_request_def)

lemma Ctx_demo_request: "Ctx (demo_request authorization ctx) = ctx"
  by (simp add: demo_request_def)

lemma json_stub_lib_carries:
  "carries (json_stub_lib SigningMethodHS256 (newClaims (demo_auth ''HS256'' L) now jti u r s))
     (demo_auth ''HS256'' L) (newClaims (demo_auth ''HS256'' L) now jti u r s)"
  by (simp add: carries_def serves_as_def honours_def method_Sign_def method_Verify_def
      json_stub_lib_def stub_lib_def demo_auth_def NewAuthenticator_def demo_config_def)

lemma json_stub_lib_generate:
  "GenerateJWTToken
     (json_stub_lib SigningMethodHS256 (newClaims (demo_auth ''HS256'' L) now jti u r s))
     (demo_auth ''HS256'' L) now jti u r s = Return (Inr ''hdr.pld.mac-s3cret'')"
  by (simp add: GenerateJWTToken_def signed_def SignedString_def method_Sign_def
      json_stub_lib_def stub_lib_def demo_auth_def NewAuthenticator_def demo_config_def)

lemma json_stub_lib_accepts:
  "accepts (json_stub_lib SigningMethodHS256 (newClaims (demo_auth ''HS256'' L) now jti u r s))
     (demo_auth ''HS256'' L) ''hdr.pld.mac-s3cret''
     (wire_claims (newClaims (demo_auth ''HS256'' L) now jti u r s))"
  by (simp add: accepts_def json_stub_lib_def stub_lib_def keyFunc_def method_Verify_def
      demo_auth_def NewAuthenticator_def demo_config_def)

text \<open>The four rejections of the JWT middleware on concrete requests.\<close>

lemma JWTAuthMiddleware_rejects_examples:
  "JWTAuthMiddleware (demo_lib (3600 * Second) 0 [''write'']) (demo_auth ''HS256'' (3600 * Second))
     (60 * Second) [''read''] demo_next [] (demo_request [] [])
     = [LogDebug ''JWT auth failed'' [Field_Error ErrMissingToken],
        HttpError ''Unauthorized'' 401] \<and>
   JWTAuthMiddleware (demo_lib (3600 * Second) 0 [''write'']) (demo_auth ''HS256'' (3600 * Second))
     (3600 * Second) [''read''] demo_next [] (demo_request ''Bearer hdr.pld.mac-s3cret'' [])
     = [LogDebug ''JWT verification failed'' [Field_Error ErrExpiredToken],
        HttpError ''Token expired'' 401] \<and>
   JWTAuthMiddleware (demo_lib (3600 * Second) 0 [''write'']) (demo_auth ''HS256'' (3600 * Second))
     (60 * Second) [''read''] demo_next [] (demo_request ''Bearer garbage'' [])
     = [LogDebug ''JWT verification failed'' [Field_Error ErrInvalidToken],
        HttpError ''Unauthorized'' 401] \<and>
   JWTAuthMiddleware (demo_lib (3600 * Second) 0 [''write'']) (demo_auth ''HS256'' (3600 * Second))
     (60 * Second) [''read''] demo_next [] (demo_request ''Bearer hdr.pld.mac-s3cret'' [])
     = [LogDebug ''Insufficient scope''
          [Field_String ''required'' ''read'', Field_String ''provided'' ''write''],
        HttpError ''Forbidden: insufficient scope'' 403]"
proof -
  let ?lib = "demo_lib (3600 * Second) 0 [''write'']"
  let ?a = "demo_auth ''HS256'' (3600 * Second)"
  let ?tok = "''hdr.pld.mac-s3cret''"
  have x1: "ExtractBearerToken (demo_request [] []) = Inl ErrMissingToken"
    by (simp add: ExtractBearerToken_def demo_request_def Header_Get_def)
  have x2: "ExtractBearerToken (demo_request ''Bearer hdr.pld.mac-s3cret'' []) = Inr ?tok"
    by (rule demo_bearer)
  have x3: "ExtractBearerToken (demo_request ''Bearer garbage'' []) = Inr ''garbage''"
    by (simp add: ExtractBearerToken_def demo_request_def Header_Get_def)
  have v2: "VerifyJWTToken ?lib ?a (3600 * Second) ?tok = Return (Inl ErrExpiredToken)"
    by (simp add: demo_verify NewNumericDate_def Second_def)
  have v3: "VerifyJWTToken ?lib ?a (60 * Second) ''garbage'' = Return (Inl ErrInvalidToken)"
    by (rule demo_verify_garbage)
  have v4: "VerifyJWTToken ?lib ?a (60 * Second) ?tok
              = Return (Inr (demo_claims (3600 * Second) 0 [''write'']))"
    by (simp add: demo_verify NewNumericDate_def Second_def)
  have g4: "\<not> scopeGate [''read''] (Scopes (demo_claims (3600 * Second) 0 [''write'']))"
    by (simp add: demo_claims_Scopes scopeGate_def)
  have "JWTAuthMiddleware ?lib ?a (60 * Second) [''read''] demo_next [] (demo_request [] [])
     = [LogDebug ''JWT auth failed'' [Field_Error ErrMissingToken],
        HttpError ''Unauthorized'' 401]"
    using JWTAuthMiddleware_rejects[of "demo_request [] []" ErrMissingToken ?lib ?a
        "60 * Second" "[''read'']" demo_next "[]"] x1
    by simp
  moreover have "JWTAuthMiddleware ?lib ?a (3600 * Second) [''read''] demo_next []
       (demo_request ''Bearer hdr.pld.mac-s3cret'' [])
     = [LogDebug ''JWT verification failed'' [Field_Error ErrExpiredToken],
        HttpError ''Token expired'' 401]"
    using JWTAuthMiddleware_rejects[of "demo_request ''Bearer hdr.pld.mac-s3cret'' []" _ ?lib ?a
        "3600 * Second" "[''read'']" demo_next "[]" ?tok] x2 v2
    by simp
  moreover have "JWTAuthMiddleware ?lib ?a (60 * Second) [''read''] demo_next []
       (demo_request ''Bearer garbage'' [])
     = [LogDebug ''JWT verification failed'' [Field_Error ErrInvalidToken],
        HttpError ''Unauthorized'' 401]"
    using JWTAuthMiddleware_rejects[of "demo_request ''Bearer garbage'' []" _ ?lib ?a
        "60 * Second" "[''read'']" demo_next "[]" "''garbage''" ErrInvalidToken] x3 v3
    by simp
  moreover have "JWTAuthMiddleware ?lib ?a (60 * Second) [''read''] demo_next []
       (demo_request ''Bearer hdr.pld.mac-s3cret'' [])
     = [LogDebug ''Insufficient scope''
          [Field_String ''required'' ''read'', Field_String ''provided'' ''write''],
        HttpError ''Forbidden: insufficient scope'' 403]"
    using JWTAuthMiddleware_rejects[of "demo_request ''Bearer hdr.pld.mac-s3cret'' []" _ ?lib ?a
        "60 * Second" "[''read'']" demo_next "[]" ?tok _
        "demo_claims (3600 * Second) 0 [''write'']"] x2 v4 g4
    by (simp add: demo_claims_Scopes)
  ultimately show ?thesis by blast
qed

section \<open>The claims\<close>

subsection \<open>C1: issuing then verifying returns the subject, the roles and the scopes\<close>

text \<open>
  C1 as stated says that the claims come back equal to the originals for every subject
  string. The claims travel as JSON, and JSON does not carry every Go string: a token
  issued for the subject of the one byte FF verifies, and its user is the three bytes of
  U+FFFD.
\<close>

theorem jwt_roundtrip_counterexample:
  "carries
     (json_stub_lib SigningMethodHS256
        (newClaims (demo_auth ''HS256'' (3600 * Second)) 0 ''id-1'' [CHR 0xFF] [''user'']
           [''read'']))
     (demo_auth ''HS256'' (3600 * Second))
     (newClaims (demo_auth ''HS256'' (3600 * Second)) 0 ''id-1'' [CHR 0xFF] [''user'']
        [''read'']) \<and>
   GenerateJWTToken
     (json_stub_lib SigningMethodHS256
        (newClaims (demo_auth ''HS256'' (3600 * Second)) 0 ''id-1'' [CHR 0xFF] [''user'']
           [''read'']))
     (demo_auth ''HS256'' (3600 * Second)) 0 ''id-1'' [CHR 0xFF] [''user''] [''read'']
     = Return (Inr ''hdr.pld.mac-s3cret'') \<and>
   (\<exists>claims.
      VerifyJWTToken
        (json_stub_lib SigningMethodHS256
           (newClaims (demo_auth ''HS256'' (3600 * Second)) 0 ''id-1'' [CHR 0xFF] [''user'']
              [''read'']))
        (demo_auth ''HS256'' (3600 * Second)) (60 * Second) ''hdr.pld.mac-s3cret''
        = Return (Inr claims) \<and>
      UserID claims = [CHR 0xEF, CHR 0xBF, CHR 0xBD] \<and>
      UserID claims \<noteq> [CHR 0xFF] \<and>
      Roles claims = [''user''] \<and> Scopes claims = [''read''])"
proof -
  let ?a = "demo_auth ''HS256'' (3600 * Second)"
  let ?c = "newClaims ?a 0 ''id-1'' [CHR 0xFF] [''user''] [''read'']"
  let ?lib = "json_stub_lib SigningMethodHS256 ?c"
  have car: "carries ?lib ?a ?c"
    by (rule json_stub_lib_carries)
  have gen: "GenerateJWTToken ?lib ?a 0 ''id-1'' [CHR 0xFF] [''user''] [''read'']
               = Return (Inr ''hdr.pld.mac-s3cret'')"
    by (rule json_stub_lib_generate)
  have acc: "accepts ?lib ?a ''hdr.pld.mac-s3cret'' (wire_claims ?c)"
    by (rule json_stub_lib_accepts)
  have "\<not> NewNumericDate (0 + jwtExpiration ?a) \<le> 60 * Second"
    "\<not> 60 * Second < NewNumericDate 0"
    by (simp_all add: jwtExpiration_demo_auth NewNumericDate_def Second_def)
  with VerifyJWTToken_wire_claims[OF acc, of "60 * Second"]
  have ver: "VerifyJWTToken ?lib ?a (60 * Second) ''hdr.pld.mac-s3cret''
               = Return (Inr (wire_claims ?c))"
    by simp
  have u: "UserID (wire_claims ?c) = [CHR 0xEF, CHR 0xBF, CHR 0xBD]"
    by (simp add: wire_claims_def newClaims_def json_string_def byte_in_def
        utf8_following_def RuneError_def)
  have r: "Roles (wire_claims ?c) = [''user'']" "Scopes (wire_claims ?c) = [''read'']"
    by (simp_all add: wire_claims_def newClaims_def json_string_def byte_in_def)
  from car gen ver u r show ?thesis by simp
qed

text \<open>
  C1, amended. For every subject, roles and scopes, under an authenticator whose keys
  the library can use, a token generated by \<open>GenerateJWTToken\<close> at the time \<open>now\<close> and
  verified by \<open>VerifyJWTToken\<close> at a time \<open>t\<close> after that and before its expiry (its
  \<open>exp\<close> claim) yields claims whose \<open>UserID\<close>, \<open>Roles\<close> and \<open>Scopes\<close> are the originals
  as JSON carries them: every byte that is not part of a well-formed UTF-8 sequence is
  replaced by U+FFFD. So they are the originals wherever the originals are valid UTF-8.
  The token library is asked to carry the claims for the authenticator: to sign them, to
  accept its own signature under the configured keys and to parse its own token string
  into the claims as JSON carries them.
\<close>

theorem jwt_roundtrip:
  assumes lib: "carries lib a (newClaims a now jti userID roles scopes)"
    and after: "now \<le> t"
    and before: "t < NewNumericDate (now + jwtExpiration a)"
  shows "\<exists>tokenString claims.
           GenerateJWTToken lib a now jti userID roles scopes = Return (Inr tokenString) \<and>
           VerifyJWTToken lib a t tokenString = Return (Inr claims) \<and>
           UserID claims = json_string userID \<and>
           Roles claims = map json_string roles \<and>
           Scopes claims = map json_string scopes \<and>
           Subject claims = json_string userID \<and>
           (utf8_ValidString userID \<longrightarrow> UserID claims = userID \<and> Subject claims = userID) \<and>
           (list_all utf8_ValidString roles \<longrightarrow> Roles claims = roles) \<and>
           (list_all utf8_ValidString scopes \<longrightarrow> Scopes claims = scopes)"
proof -
  let ?c = "newClaims a now jti userID roles scopes"
  from lib have "serves_as lib a ?c (wire_claims ?c)"
    by (simp add: carries_def)
  from GenerateJWTToken_accepts[OF this] obtain tokenString where
    gen: "GenerateJWTToken lib a now jti userID roles scopes = Return (Inr tokenString)"
    and acc: "accepts lib a tokenString (wire_claims ?c)"
    by blast
  have "NewNumericDate now \<le> t"
    using NewNumericDate_le[of now] after by simp
  with before have ver: "VerifyJWTToken lib a t tokenString = Return (Inr (wire_claims ?c))"
    by (simp add: VerifyJWTToken_wire_claims[OF acc])
  have fields: "UserID (wire_claims ?c) = json_string userID"
    "Roles (wire_claims ?c) = map json_string roles"
    "Scopes (wire_claims ?c) = map json_string scopes"
    "Subject (wire_claims ?c) = json_string userID"
    by (simp_all add: wire_claims_def newClaims_def)
  have "utf8_ValidString userID \<longrightarrow> json_string userID = userID"
    "list_all utf8_ValidString roles \<longrightarrow> map json_string roles = roles"
    "list_all utf8_ValidString scopes \<longrightarrow> map json_string scopes = scopes"
    by (simp_all add: json_string_valid map_json_string_valid)
  with gen ver fields show ?thesis by simp
qed

theorem jwt_roundtrip_witness:
  "carries
     (json_stub_lib SigningMethodHS256
        (newClaims (demo_auth ''HS256'' (3600 * Second)) 1500000000 ''id-1'' ''u1''
           [''user''] [''read'']))
     (demo_auth ''HS256'' (3600 * Second))
     (newClaims (demo_auth ''HS256'' (3600 * Second)) 1500000000 ''id-1'' ''u1''
        [''user''] [''read'']) \<and>
   (1500000000::int) \<le> 1500000000 + 60 * Second \<and>
   1500000000 + 60 * Second <
     NewNumericDate (1500000000 + jwtExpiration (demo_auth ''HS256'' (3600 * Second))) \<and>
   utf8_ValidString ''u1'' \<and>
   list_all utf8_ValidString [''user''] \<and>
   list_all utf8_ValidString [''read''] \<and>
   (\<exists>tokenString claims.
      GenerateJWTToken
        (json_stub_lib SigningMethodHS256
           (newClaims (demo_auth ''HS256'' (3600 * Second)) 1500000000 ''id-1'' ''u1''
              [''user''] [''read'']))
        (demo_auth ''HS256'' (3600 * Second)) 1500000000 ''id-1'' ''u1'' [''user''] [''read'']
        = Return (Inr tokenString) \<and>
      VerifyJWTToken
        (json_stub_lib SigningMethodHS256
           (newClaims (demo_auth ''HS256'' (3600 * Second)) 1500000000 ''id-1'' ''u1''
              [''user''] [''read'']))
        (demo_auth ''HS256'' (3600 * Second)) (1500000000 + 60 * Second) tokenString
        = Return (Inr claims) \<and>
      UserID claims = ''u1'' \<and> Roles claims = [''user''] \<and> Scopes claims = [''read''] \<and>
      Subject claims = ''u1'')"
proof -
  let ?a = "demo_auth ''HS256'' (3600 * Second)"
  let ?c = "newClaims ?a 1500000000 ''id-1'' ''u1'' [''user''] [''read'']"
  have s: "carries (json_stub_lib SigningMethodHS256 ?c) ?a ?c"
    by (rule json_stub_lib_carries)
  have t1: "(1500000000::int) \<le> 1500000000 + 60 * Second"
    by (simp add: Second_def)
  have t2: "1500000000 + 60 * Second < NewNumericDate (1500000000 + jwtExpiration ?a)"
    by (simp add: jwtExpiration_demo_auth Second_def NewNumericDate_def)
  have v: "utf8_ValidString ''u1''" "list_all utf8_ValidString [''user'']"
    "list_all utf8_ValidString [''read'']"
    by (simp_all add: utf8_ValidString_def byte_in_def)
  from jwt_roundtrip[OF s t1 t2] s t1 t2 v show ?thesis by auto
qed

subsection \<open>C2: the expiry boundary\<close>




subsection \<open>C3: the scope gate\<close>



subsection \<open>C4: what the JWT middleware answers when it rejects\<close>

text \<open>
  C4 says that every request the JWT middleware does not pass on is answered: 401 for a
  failed extraction and for a failed verification, 403 for a denied scope. The middleware
  does so whenever \<open>VerifyJWTToken\<close> returns (\<open>JWTAuthMiddleware_rejects\<close>). It does not
  return for every request: for a token whose header names an RSA method the key function
  returns the configured public key, and the server configures none. Under the server's
  own configuration a bearer token with an \<open>RS256\<close> header makes \<open>VerifyJWTToken\<close> panic,
  and the middleware with it: no debug line, no 401, and the next handler is not run.
\<close>

theorem jwt_middleware_nil_key_panic:
  "jwtPublicKey (demo_auth ''HS256'' (3600 * Second)) = None \<and>
   VerifyJWTToken
     (stub_lib SigningMethodRS256 (demo_claims (3600 * Second) 0 [''read'']))
     (demo_auth ''HS256'' (3600 * Second)) (60 * Second) ''hdr.pld.forged'' = Panic \<and>
   JWTAuthMiddleware
     (stub_lib SigningMethodRS256 (demo_claims (3600 * Second) 0 [''read'']))
     (demo_auth ''HS256'' (3600 * Second)) (60 * Second) [''read''] demo_next []
     (demo_request ''Bearer hdr.pld.forged'' [])
     = [Panicked]"
proof -
  let ?lib = "stub_lib SigningMethodRS256 (demo_claims (3600 * Second) 0 [''read''])"
  let ?a = "demo_auth ''HS256'' (3600 * Second)"
  have k: "jwtPublicKey ?a = None"
    by (simp add: demo_auth_def NewAuthenticator_def demo_config_def)
  have x: "ExtractBearerToken (demo_request ''Bearer hdr.pld.forged'' []) = Inr ''hdr.pld.forged''"
    by (simp add: ExtractBearerToken_def demo_request_def Header_Get_def)
  have p: "ParseUnverified ?lib ''hdr.pld.forged''
             = Inr \<lparr>Method = SigningMethodRS256,
                    Token_Claims = demo_claims (3600 * Second) 0 [''read''],
                    SigningInput = ''hdr.pld'', Signature = ''forged'', Valid = False\<rparr>"
    by (simp add: stub_lib_def)
  have v: "VerifyJWTToken ?lib ?a (60 * Second) ''hdr.pld.forged'' = Panic"
    using k p by (simp add: VerifyJWTToken_Panic)
  from JWTAuthMiddleware_panics[OF x v] k v show ?thesis by simp
qed

subsection \<open>C5: bearer extraction\<close>

text \<open>
  C5. \<open>ExtractBearerToken\<close> succeeds exactly when the \<open>Authorization\<close> value splits at
  its spaces into two pieces of which the first is \<open>Bearer\<close>, and it returns the second;
  that is, when the value is \<open>Bearer\<close>, one space and a token without a space. It fails
  with \<open>ErrMissingToken\<close> exactly when the value is absent or empty and with
  \<open>ErrInvalidToken\<close> on every other value. So \<open>Bearer abc\<close> gives \<open>abc\<close>, \<open>Basic abc\<close> is
  malformed and the empty header is missing.
\<close>

theorem bearer_extraction:
  "(ExtractBearerToken r = Inr t \<longleftrightarrow>
      strings_Split (Header_Get (Header r) ''Authorization'') CHR '' '' = [''Bearer'', t]) \<and>
   (ExtractBearerToken r = Inr t \<longleftrightarrow>
      Header_Get (Header r) ''Authorization'' = ''Bearer '' @ t \<and> CHR '' '' \<notin> set t) \<and>
   (ExtractBearerToken r = Inl ErrMissingToken \<longleftrightarrow>
      Header_Get (Header r) ''Authorization'' = []) \<and>
   (ExtractBearerToken r = Inl ErrInvalidToken \<longleftrightarrow>
      Header_Get (Header r) ''Authorization'' \<noteq> [] \<and>
      (\<forall>t'. strings_Split (Header_Get (Header r) ''Authorization'') CHR '' ''
              \<noteq> [''Bearer'', t']))"
proof -
  have "strings_Split h CHR '' '' = [''Bearer'', t] \<longleftrightarrow> h = ''Bearer '' @ t \<and> CHR '' '' \<notin> set t"
    for h
    using strings_Split_pair[of h "CHR '' ''" "''Bearer''" t] by auto
  then show ?thesis
    using ExtractBearerToken_Inr[of r t] ExtractBearerToken_Inl[of r ErrMissingToken]
      ExtractBearerToken_Inl[of r ErrInvalidToken]
    by (auto split: if_splits)
qed

theorem bearer_extraction_witness:
  "ExtractBearerToken (demo_request ''Bearer abc'' []) = Inr ''abc'' \<and>
   ExtractBearerToken (demo_request ''Basic abc'' []) = Inl ErrInvalidToken \<and>
   ExtractBearerToken (demo_request [] []) = Inl ErrMissingToken \<and>
   ExtractBearerToken \<lparr>Header = (\<lambda>key. []), Ctx = []\<rparr> = Inl ErrMissingToken \<and>
   ExtractBearerToken (demo_request ''Bearer a b'' []) = Inl ErrInvalidToken \<and>
   ExtractBearerToken (demo_request ''bearer abc'' []) = Inl ErrInvalidToken"
  using bearer_extraction[of "demo_request ''Bearer abc'' []" "''abc''"]
    bearer_extraction[of "demo_request ''Basic abc'' []"]
    bearer_extraction[of "demo_request [] []"]
    bearer_extraction[of "\<lparr>Header = (\<lambda>key. []), Ctx = []\<rparr>"]
    bearer_extraction[of "demo_request ''Bearer a b'' []"]
    bearer_extraction[of "demo_request ''bearer abc'' []"]
  by (simp add: demo_request_def Header_Get_def)

subsection \<open>C6: an authorized request carries its identity to the next handler\<close>

text \<open>
  C6. When the extraction, the verification and the scope gate pass, the JWT middleware
  stores the verified claims, their scopes and their user in the context of the request
  and runs the next handler on it; its result is the result of the next handler,
  unchanged. On that context \<open>GetClaims\<close>, \<open>GetScopes\<close> and \<open>GetUserID\<close> return the claims,
  the scopes and the user of the token; for the claims \<open>GenerateJWTToken\<close> builds, the
  user is the subject the token was issued for.
\<close>

theorem jwt_middleware_attaches_identity:
  assumes "ExtractBearerToken r = Inr token"
    and "VerifyJWTToken lib a now token = Return (Inr claims)"
    and "scopeGate requiredScopes (Scopes claims)"
  shows "\<exists>ctx.
           JWTAuthMiddleware lib a now requiredScopes next w r = next w (WithContext r ctx) \<and>
           ctx = context_WithValue
                   (context_WithValue
                      (context_WithValue (Ctx r) ClaimsContextKey (ClaimsValue claims))
                      ScopesContextKey (StringSliceValue (Scopes claims)))
                   UserIDContextKey (StringValue (UserID claims)) \<and>
           GetClaims ctx = (Some claims, True) \<and>
           GetScopes ctx = (Scopes claims, True) \<and>
           GetUserID ctx = (UserID claims, True) \<and>
           (claims = newClaims a issued jti userID roles scopes \<longrightarrow>
              GetUserID ctx = (userID, True) \<and> Subject claims = userID)"
proof -
  have "UserID (newClaims a issued jti userID roles scopes) = userID"
    "Subject (newClaims a issued jti userID roles scopes) = userID"
    by (simp_all add: newClaims_def)
  then show ?thesis
    using JWTAuthMiddleware_pass[OF assms, of "next" w] jwtContext_accessors[of "Ctx r" claims]
    by (auto simp: jwtContext_def)
qed

theorem jwt_middleware_attaches_identity_witness:
  "GenerateJWTToken (demo_lib (3600 * Second) 0 [''read'']) (demo_auth ''HS256'' (3600 * Second))
     0 ''id-1'' ''u1'' [''user''] [''read''] = Return (Inr ''hdr.pld.mac-s3cret'') \<and>
   JWTAuthMiddleware (demo_lib (3600 * Second) 0 [''read'']) (demo_auth ''HS256'' (3600 * Second))
     (60 * Second) [''read''] demo_next [] (demo_request ''Bearer hdr.pld.mac-s3cret'' [])
     = [Respond 200 ''user=u1 scopes=read claims=yes'']"
proof -
  let ?lib = "demo_lib (3600 * Second) 0 [''read'']"
  let ?a = "demo_auth ''HS256'' (3600 * Second)"
  let ?r = "demo_request ''Bearer hdr.pld.mac-s3cret'' []"
  let ?c = "demo_claims (3600 * Second) 0 [''read'']"
  have x: "ExtractBearerToken ?r = Inr ''hdr.pld.mac-s3cret''"
    by (rule demo_bearer)
  have v: "VerifyJWTToken ?lib ?a (60 * Second) ''hdr.pld.mac-s3cret'' = Return (Inr ?c)"
    by (simp add: demo_verify NewNumericDate_def Second_def)
  have g: "scopeGate [''read''] (Scopes ?c)"
    by (simp add: demo_claims_Scopes scopeGate_def)
  from jwt_middleware_attaches_identity[OF x v g, of demo_next "[]"]
  obtain ctx where
    run: "JWTAuthMiddleware ?lib ?a (60 * Second) [''read''] demo_next [] ?r
            = demo_next [] (WithContext ?r ctx)"
    and c: "GetClaims ctx = (Some ?c, True)"
    and s: "GetScopes ctx = (Scopes ?c, True)"
    and u: "GetUserID ctx = (UserID ?c, True)"
    by blast
  have "demo_next [] (WithContext ?r ctx) = [Respond 200 ''user=u1 scopes=read claims=yes'']"
    by (simp add: demo_next_def WithContext_def c s u demo_claims_Scopes demo_claims_UserID)
  with run demo_generate[of "3600 * Second" 0 "[''read'']"] show ?thesis by simp
qed

subsection \<open>C7: an unknown method name falls back to HS256\<close>

text \<open>
  C7. For every configured method name other than the six the switch knows,
  \<open>NewAuthenticator\<close> returns an authenticator and no error, its method is
  \<open>SigningMethodHS256\<close>, and \<open>GenerateJWTToken\<close> under it is the library's HS256 signature
  of the claims with the configured secret.
\<close>

theorem silent_fallback:
  assumes "JWTSigningMethod config
             \<notin> {''HS256'', ''HS384'', ''HS512'', ''RS256'', ''RS384'', ''RS512''}"
  shows "\<exists>a. NewAuthenticator config = Inr a \<and>
              jwtSigningMethod a = SigningMethodHS256 \<and>
              jwtSecret a = JWTSecret config \<and>
              (\<forall>lib now jti userID roles scopes.
                 GenerateJWTToken lib a now jti userID roles scopes =
                   signed (SignedString lib SigningMethodHS256
                             (newClaims a now jti userID roles scopes)
                             (KeyBytes (JWTSecret config))))"
  using assms
  by (simp add: NewAuthenticator_def GenerateJWTToken_def)

theorem silent_fallback_witness:
  "JWTSigningMethod (demo_config ''ES256'' (3600 * Second))
     \<notin> {''HS256'', ''HS384'', ''HS512'', ''RS256'', ''RS384'', ''RS512''} \<and>
   (\<exists>a. NewAuthenticator (demo_config ''ES256'' (3600 * Second)) = Inr a \<and>
        jwtSigningMethod a = SigningMethodHS256 \<and>
        GenerateJWTToken (stub_lib SigningMethodHS256 (newClaims a 0 ''id-1'' ''u1'' [] [])) a
          0 ''id-1'' ''u1'' [] [] = Return (Inr ''hdr.pld.mac-s3cret''))"
proof -
  have n: "JWTSigningMethod (demo_config ''ES256'' (3600 * Second))
     \<notin> {''HS256'', ''HS384'', ''HS512'', ''RS256'', ''RS384'', ''RS512''}"
    by (simp add: demo_config_def)
  from silent_fallback[OF n] obtain a where
    a: "NewAuthenticator (demo_config ''ES256'' (3600 * Second)) = Inr a"
    and m: "jwtSigningMethod a = SigningMethodHS256"
    and g: "\<And>lib now jti userID roles scopes.
                 GenerateJWTToken lib a now jti userID roles scopes =
                   signed (SignedString lib SigningMethodHS256
                             (newClaims a now jti userID roles scopes)
                             (KeyBytes (JWTSecret (demo_config ''ES256'' (3600 * Second)))))"
    by blast
  have "GenerateJWTToken (stub_lib SigningMethodHS256 (newClaims a 0 ''id-1'' ''u1'' [] [])) a
          0 ''id-1'' ''u1'' [] [] = Return (Inr ''hdr.pld.mac-s3cret'')"
    by (simp add: g signed_def SignedString_def method_Sign_def stub_lib_def demo_config_def)
  with n a m show ?thesis by blast
qed

subsection \<open>C8: the dates of the generated claims\<close>

text \<open>
  C8 as stated says that every generated claims value expires strictly after it was
  issued. Nothing checks the configured lifetime: with the lifetime 0 (the zero value of
  the configuration) a token issued at 1.5 seconds is issued at, and expires at, second 1.
\<close>

theorem claims_dates_counterexample:
  "jwtExpiration (demo_auth ''HS256'' 0) = 0 \<and>
   IssuedAt (newClaims (demo_auth ''HS256'' 0) 1500000000 ''id-1'' ''u1'' [''user''] [''read''])
     = Some 1000000000 \<and>
   ExpiresAt (newClaims (demo_auth ''HS256'' 0) 1500000000 ''id-1'' ''u1'' [''user''] [''read''])
     = Some 1000000000"
  by (simp add: jwtExpiration_demo_auth newClaims_def NewNumericDate_def Second_def)

text \<open>
  C8, amended. In the claims \<open>GenerateJWTToken\<close> builds at the time \<open>now\<close>, \<open>iat\<close> and
  \<open>nbf\<close> are \<open>now\<close> cut to whole seconds and \<open>exp\<close> is \<open>now\<close> plus the configured lifetime
  cut to whole seconds. With a lifetime of at least one second \<open>exp\<close> is strictly after
  \<open>iat\<close>; with a lifetime of a whole number of seconds \<open>exp\<close> is \<open>iat\<close> plus the lifetime.
\<close>

theorem claims_dates:
  "IssuedAt (newClaims a now jti userID roles scopes) = Some (NewNumericDate now) \<and>
   NotBefore (newClaims a now jti userID roles scopes) = Some (NewNumericDate now) \<and>
   ExpiresAt (newClaims a now jti userID roles scopes)
     = Some (NewNumericDate (now + jwtExpiration a)) \<and>
   (Second \<le> jwtExpiration a \<longrightarrow>
      NewNumericDate now < NewNumericDate (now + jwtExpiration a)) \<and>
   (jwtExpiration a = k * Second \<longrightarrow>
      NewNumericDate (now + jwtExpiration a) = NewNumericDate now + jwtExpiration a)"
  using NewNumericDate_strict[of "jwtExpiration a" now] NewNumericDate_add_seconds[of now k]
  by (simp add: newClaims_def)

theorem claims_dates_witness:
  "Second \<le> jwtExpiration (demo_auth ''HS256'' (3600 * Second)) \<and>
   jwtExpiration (demo_auth ''HS256'' (3600 * Second)) = 3600 * Second \<and>
   IssuedAt (newClaims (demo_auth ''HS256'' (3600 * Second)) 1500000000 ''id-1'' ''u1'' [] [])
     = Some 1000000000 \<and>
   ExpiresAt (newClaims (demo_auth ''HS256'' (3600 * Second)) 1500000000 ''id-1'' ''u1'' [] [])
     = Some 3601000000000"
proof -
  have "NewNumericDate 1500000000 = 1000000000"
    by (simp add: NewNumericDate_def Second_def)
  moreover have "jwtExpiration (demo_auth ''HS256'' (3600 * Second)) = 3600 * Second"
    by (rule jwtExpiration_demo_auth)
  ultimately show ?thesis
    using claims_dates[of "demo_auth ''HS256'' (3600 * Second)" 1500000000 "''id-1''" "''u1''"
        "[]" "[]" 3600]
    by (simp add: Second_def)
qed

subsection \<open>C9: the OAuth2 middleware\<close>

text \<open>
  C9 as stated says that every request with a bearer credential gets the fixed scopes
  and the fixed user attached. The middleware still runs the scope gate on the fixed
  scopes: a route that requires \<open>delete\<close> answers 403 to such a request and the next
  handler is not run.
\<close>

theorem oauth2_stub_counterexample:
  "ExtractBearerToken (demo_request ''Bearer anything'' []) = Inr ''anything'' \<and>
   OAuth2AuthMiddleware (demo_auth ''HS256'' (3600 * Second)) [''delete''] demo_next []
     (demo_request ''Bearer anything'' [])
     = [LogDebug ''Insufficient OAuth2 scope''
          [Field_String ''required'' ''delete'', Field_String ''provided'' ''read,write''],
        HttpError ''Forbidden: insufficient scope'' 403]"
  by (simp add: OAuth2AuthMiddleware_cases demo_bearer_anything scopeGate_def)

text \<open>
  C9, amended. A request without a valid bearer header is rejected with 401. A request
  with a bearer credential, whatever the credential is, on a route that requires no scope
  or requires \<open>read\<close> or \<open>write\<close> among its scopes reaches the next handler with the scopes
  \<open>read\<close> and \<open>write\<close> and the user \<open>oauth2-user-123\<close> stored in its context; on any other
  route it is rejected with 403. The credential is not verified: the result does not
  depend on it.
\<close>

theorem oauth2_stub:
  "(ExtractBearerToken r = Inl e \<longrightarrow>
      OAuth2AuthMiddleware a requiredScopes next w r =
        w @ [LogDebug ''OAuth2 auth failed'' [Field_Error e],
             HttpError ''Unauthorized'' 401]) \<and>
   (ExtractBearerToken r = Inr token \<and>
    (requiredScopes = [] \<or> ''read'' \<in> set requiredScopes \<or> ''write'' \<in> set requiredScopes) \<longrightarrow>
      (\<exists>ctx. OAuth2AuthMiddleware a requiredScopes next w r = next w (WithContext r ctx) \<and>
             ctx = context_WithValue
                     (context_WithValue (Ctx r) ScopesContextKey
                        (StringSliceValue [''read'', ''write'']))
                     UserIDContextKey (StringValue ''oauth2-user-123'') \<and>
             GetScopes ctx = ([''read'', ''write''], True) \<and>
             GetUserID ctx = (''oauth2-user-123'', True))) \<and>
   (ExtractBearerToken r = Inr token \<and>
    \<not> (requiredScopes = [] \<or> ''read'' \<in> set requiredScopes \<or> ''write'' \<in> set requiredScopes) \<longrightarrow>
      OAuth2AuthMiddleware a requiredScopes next w r =
        w @ [LogDebug ''Insufficient OAuth2 scope''
               [Field_String ''required'' (strings_Join requiredScopes '',''),
                Field_String ''provided'' ''read,write''],
             HttpError ''Forbidden: insufficient scope'' 403])"
proof -
  have gate: "scopeGate requiredScopes [''read'', ''write''] \<longleftrightarrow>
      requiredScopes = [] \<or> ''read'' \<in> set requiredScopes \<or> ''write'' \<in> set requiredScopes"
    by (auto simp: scopeGate_def requiredScopesLoop_iff)
  show ?thesis
    using oauth2Context_accessors(1,2)[of "Ctx r"]
    by (simp add: OAuth2AuthMiddleware_cases gate oauth2Context_def)
qed

theorem oauth2_stub_witness:
  "OAuth2AuthMiddleware (demo_auth ''HS256'' (3600 * Second)) [''read''] demo_next []
     (demo_request ''Bearer anything'' [])
     = [Respond 200 ''user=oauth2-user-123 scopes=read,write claims=no''] \<and>
   OAuth2AuthMiddleware (demo_auth ''HS256'' (3600 * Second)) [''read''] demo_next []
     (demo_request ''Basic abc'' [])
     = [LogDebug ''OAuth2 auth failed'' [Field_Error ErrInvalidToken],
        HttpError ''Unauthorized'' 401] \<and>
   OAuth2AuthMiddleware (demo_auth ''HS256'' (3600 * Second)) [''admin''] demo_next []
     (demo_request ''Bearer anything'' [])
     = [LogDebug ''Insufficient OAuth2 scope''
          [Field_String ''required'' ''admin'', Field_String ''provided'' ''read,write''],
        HttpError ''Forbidden: insufficient scope'' 403]"
proof -
  let ?a = "demo_auth ''HS256'' (3600 * Second)"
  let ?r = "demo_request ''Bearer anything'' []"
  have x: "ExtractBearerToken ?r = Inr ''anything''"
    by (rule demo_bearer_anything)
  have y: "ExtractBearerToken (demo_request ''Basic abc'' []) = Inl ErrInvalidToken"
    by (simp add: ExtractBearerToken_def demo_request_def Header_Get_def)
  from oauth2_stub[of ?r _ ?a "[''read'']" demo_next "[]" "''anything''"] x
  obtain ctx where
    run: "OAuth2AuthMiddleware ?a [''read''] demo_next [] ?r = demo_next [] (WithContext ?r ctx)"
    and ctx: "ctx = context_WithValue
                     (context_WithValue (Ctx ?r) ScopesContextKey
                        (StringSliceValue [''read'', ''write'']))
                     UserIDContextKey (StringValue ''oauth2-user-123'')"
    by auto
  have "demo_next [] (WithContext ?r ctx)
          = [Respond 200 ''user=oauth2-user-123 scopes=read,write claims=no'']"
    using oauth2Context_accessors[of "[]"]
    by (simp add: ctx demo_next_def WithContext_def demo_request_def oauth2Context_def
        GetClaims_def Context_Value_def)
  with run have 1: "OAuth2AuthMiddleware ?a [''read''] demo_next [] ?r
     = [Respond 200 ''user=oauth2-user-123 scopes=read,write claims=no'']"
    by simp
  have 2: "OAuth2AuthMiddleware ?a [''read''] demo_next [] (demo_request ''Basic abc'' [])
     = [LogDebug ''OAuth2 auth failed'' [Field_Error ErrInvalidToken],
        HttpError ''Unauthorized'' 401]"
    using oauth2_stub[of "demo_request ''Basic abc'' []" ErrInvalidToken ?a "[''read'']"
        demo_next "[]"] y
    by simp
  have 3: "OAuth2AuthMiddleware ?a [''admin''] demo_next [] ?r
     = [LogDebug ''Insufficient OAuth2 scope''
          [Field_String ''required'' ''admin'', Field_String ''provided'' ''read,write''],
        HttpError ''Forbidden: insufficient scope'' 403]"
    using oauth2_stub[of ?r _ ?a "[''admin'']" demo_next "[]" "''anything''"] x
    by simp
  from 1 2 3 show ?thesis by blast
qed

subsection \<open>C10: the claims entry behind the OAuth2 middleware\<close>

text \<open>
  C10 as stated says that \<open>GetClaims\<close> reports absence behind the OAuth2 middleware for
  every authorized request. The middleware extends the context it is given and removes
  nothing from it: on a route that runs the JWT middleware and then the OAuth2
  middleware, the handler finds the claims of the token, next to the user and the scopes
  of the OAuth2 middleware.
\<close>

theorem oauth2_claims_counterexample:
  "JWTAuthMiddleware (demo_lib (3600 * Second) 0 [''read'']) (demo_auth ''HS256'' (3600 * Second))
     (60 * Second) [''read'']
     (OAuth2AuthMiddleware (demo_auth ''HS256'' (3600 * Second)) [''read''] demo_next)
     [] (demo_request ''Bearer hdr.pld.mac-s3cret'' [])
     = [Respond 200 ''user=oauth2-user-123 scopes=read,write claims=yes'']"
proof -
  let ?lib = "demo_lib (3600 * Second) 0 [''read'']"
  let ?a = "demo_auth ''HS256'' (3600 * Second)"
  let ?c = "demo_claims (3600 * Second) 0 [''read'']"
  let ?ctx = "jwtContext [] ?c"
  have v: "VerifyJWTToken ?lib ?a (60 * Second) ''hdr.pld.mac-s3cret'' = Return (Inr ?c)"
    by (simp add: demo_verify NewNumericDate_def Second_def)
  have g: "scopeGate [''read''] (Scopes ?c)"
    by (simp add: demo_claims_Scopes scopeGate_def)
  have "JWTAuthMiddleware ?lib ?a (60 * Second) [''read'']
          (OAuth2AuthMiddleware ?a [''read''] demo_next) []
          (demo_request ''Bearer hdr.pld.mac-s3cret'' [])
        = OAuth2AuthMiddleware ?a [''read''] demo_next []
            (demo_request ''Bearer hdr.pld.mac-s3cret'' ?ctx)"
    using JWTAuthMiddleware_pass[OF demo_bearer v g,
        of "OAuth2AuthMiddleware ?a [''read''] demo_next" "[]" "[]"]
    by (simp add: WithContext_demo_request Ctx_demo_request)
  also have "\<dots> = demo_next [] (demo_request ''Bearer hdr.pld.mac-s3cret'' (oauth2Context ?ctx))"
    by (simp add: OAuth2AuthMiddleware_cases demo_bearer scopeGate_def
        WithContext_demo_request Ctx_demo_request)
  also have "\<dots> = [Respond 200 ''user=oauth2-user-123 scopes=read,write claims=yes'']"
    by (simp add: demo_next_def Ctx_demo_request oauth2Context_accessors jwtContext_accessors)
  finally show ?thesis .
qed

text \<open>
  C10, amended. The OAuth2 middleware stores the scopes and the user and no claims: for
  every request it authorizes, \<open>GetClaims\<close> on the context of the next handler returns
  what it returns on the context of the incoming request, so it reports absence when the
  incoming context holds no value under the claims key, while \<open>GetUserID\<close> and
  \<open>GetScopes\<close> succeed.
\<close>

theorem oauth2_claims_untouched:
  assumes "ExtractBearerToken r = Inr token"
    and "scopeGate requiredScopes [''read'', ''write'']"
  shows "\<exists>ctx. OAuth2AuthMiddleware a requiredScopes next w r = next w (WithContext r ctx) \<and>
               GetClaims ctx = GetClaims (Ctx r) \<and>
               (Context_Value (Ctx r) ClaimsContextKey = None \<longrightarrow>
                  GetClaims ctx = (None, False)) \<and>
               GetUserID ctx = (''oauth2-user-123'', True) \<and>
               GetScopes ctx = ([''read'', ''write''], True)"
proof -
  have "Context_Value (Ctx r) ClaimsContextKey = None \<Longrightarrow> GetClaims (Ctx r) = (None, False)"
    by (simp add: GetClaims_def)
  then show ?thesis
    using assms oauth2Context_accessors[of "Ctx r"]
    by (auto simp: OAuth2AuthMiddleware_cases)
qed

theorem oauth2_claims_untouched_witness:
  "OAuth2AuthMiddleware (demo_auth ''HS256'' (3600 * Second)) [''read''] demo_next []
     (demo_request ''Bearer anything'' [(ForeignKey ''logger'', ForeignValue ''zap'')])
     = [Respond 200 ''user=oauth2-user-123 scopes=read,write claims=no'']"
proof -
  let ?a = "demo_auth ''HS256'' (3600 * Second)"
  let ?r = "demo_request ''Bearer anything'' [(ForeignKey ''logger'', ForeignValue ''zap'')]"
  have x: "ExtractBearerToken ?r = Inr ''anything''"
    by (rule demo_bearer_anything)
  have g: "scopeGate [''read''] [''read'', ''write'']"
    by (simp add: scopeGate_def)
  have n: "Context_Value (Ctx ?r) ClaimsContextKey = None"
    by (simp add: demo_request_def Context_Value_def ClaimsContextKey_def)
  from oauth2_claims_untouched[OF x g, of ?a demo_next "[]"] n
  obtain ctx where
    run: "OAuth2AuthMiddleware ?a [''read''] demo_next [] ?r = demo_next [] (WithContext ?r ctx)"
    and c: "GetClaims ctx = (None, False)"
    and u: "GetUserID ctx = (''oauth2-user-123'', True)"
    and s: "GetScopes ctx = ([''read'', ''write''], True)"
    by blast
  have "demo_next [] (WithContext ?r ctx)
          = [Respond 200 ''user=oauth2-user-123 scopes=read,write claims=no'']"
    by (simp add: demo_next_def WithContext_def c u s)
  with run show ?thesis by simp
qed

end
